theory Spec2Isabelle
  imports Complex_Main
begin

section \<open>JavaScript values, completions and settlements\<close>

text \<open>
  Chunks, reasons and errors are JavaScript values of type \<^verbatim>\<open>any\<close>. The model keeps the
  values the streams create themselves (\<^verbatim>\<open>undefined\<close>, numbers, \<^verbatim>\<open>TypeError\<close>,
  \<^verbatim>\<open>RangeError\<close>, read results) and one constructor for every other value.
  Numbers are reals; the three non-finite numbers are constructors of their own.
\<close>

datatype js_value =
    Undefined
  | Num real
  | NaN
  | PosInfinity
  | NegInfinity
  | Opaque nat
  | TypeError string
  | RangeError string
  | ReadResult js_value bool

text \<open>A call either returns or throws.\<close>

datatype 'a completion = Normal 'a | Throw js_value

text \<open>
  A promise is an address in a heap of settlements. A fresh promise is the next free
  address, so two promises are the same object exactly when their addresses are equal.
\<close>

datatype settlement = Pending | Fulfilled js_value | Rejected js_value

type_synonym promise = nat
type_synonym heap = "settlement list"

definition lookupPromise :: "heap \<Rightarrow> promise \<Rightarrow> settlement option" where
  "lookupPromise h p = (if p < length h then Some (h ! p) else None)"

text \<open>
  Modelled from the spec: \<^verbatim>\<open>helpers.ts\<close> (\<^verbatim>\<open>newPromise\<close>, \<^verbatim>\<open>promiseResolvedWith\<close>,
  \<^verbatim>\<open>promiseRejectedWith\<close> and the resolving functions a promise hands out) is not among
  the sources. Section 4.B: creation returns a handle with its resolve and reject;
  resolve and reject are ignored after the first call.
\<close>

definition newPromise :: "heap \<Rightarrow> promise \<times> heap" where
  "newPromise h = (length h, h @ [Pending])"

definition promiseResolvedWith :: "js_value \<Rightarrow> heap \<Rightarrow> promise \<times> heap" where
  "promiseResolvedWith v h = (length h, h @ [Fulfilled v])"

definition promiseRejectedWith :: "js_value \<Rightarrow> heap \<Rightarrow> promise \<times> heap" where
  "promiseRejectedWith r h = (length h, h @ [Rejected r])"

definition resolvePromise :: "promise \<Rightarrow> js_value \<Rightarrow> heap \<Rightarrow> heap" where
  "resolvePromise p v h = (if p < length h \<and> h ! p = Pending then h[p := Fulfilled v] else h)"

definition rejectPromise :: "promise \<Rightarrow> js_value \<Rightarrow> heap \<Rightarrow> heap" where
  "rejectPromise p r h = (if p < length h \<and> h ! p = Pending then h[p := Rejected r] else h)"

fun rejectAll :: "promise list \<Rightarrow> js_value \<Rightarrow> heap \<Rightarrow> heap" where
  "rejectAll [] r h = h"
| "rejectAll (p # ps) r h = rejectAll ps r (rejectPromise p r h)"

fun resolveAll :: "promise list \<Rightarrow> js_value \<Rightarrow> heap \<Rightarrow> heap" where
  "resolveAll [] v h = h"
| "resolveAll (p # ps) v h = resolveAll ps v (resolvePromise p v h)"

text \<open>The outcome with which the environment settles a promise that user code returned.\<close>

datatype outcome = Fulfil js_value | Reject js_value

fun settlePromise :: "promise \<Rightarrow> outcome \<Rightarrow> heap \<Rightarrow> heap" where
  "settlePromise p (Fulfil v) h = resolvePromise p v h"
| "settlePromise p (Reject r) h = rejectPromise p r h"

section \<open>The writable stream (\<^verbatim>\<open>writable-stream.ts\<close>)\<close>

datatype WritableStreamState = Writable | Closed | Erroring | Errored

text \<open>
  \<^verbatim>\<open>PendingAbortRequest\<close>: \<^verbatim>\<open>_resolve\<close> and \<^verbatim>\<open>_reject\<close> are the resolving functions of
  \<^verbatim>\<open>_promise\<close>, so the promise stands for all three.
\<close>

record PendingAbortRequest =
  par_promise :: promise
  par_reason :: js_value
  par_wasAlreadyErroring :: bool

datatype ClosedPromiseState = ClosedPending | ClosedResolved | ClosedRejected
datatype ReadyPromiseState = ReadyPending | ReadyFulfilled | ReadyRejected

text \<open>
  \<^verbatim>\<open>WritableStreamDefaultWriter\<close>. The slots \<^verbatim>\<open>_closedPromise_resolve\<close>,
  \<^verbatim>\<open>_closedPromise_reject\<close>, \<^verbatim>\<open>_readyPromise_resolve\<close> and \<^verbatim>\<open>_readyPromise_reject\<close> are the
  resolving functions of the two promises; the source asserts they are defined wherever
  it calls them, and the model resolves the promise itself.
\<close>

record WritableStreamDefaultWriter =
  closedPromise :: promise
  closedPromiseState :: ClosedPromiseState
  readyPromise :: promise
  readyPromiseState :: ReadyPromiseState

text \<open>\<^verbatim>\<open>type QueueRecord<W> = WriteRecord<W> | 'close'\<close>\<close>

datatype QueueRecord = WriteRecord js_value | CloseMarker

text \<open>
  The underlying sink is user code. A call of one of its algorithms is recorded, with
  the promise the call returned, in \<open>w_calls\<close>; the promise is pending until the
  environment settles it. \<^verbatim>\<open>uponPromise(p, onFulfilled, onRejected)\<close> registers a pair
  of closures on \<open>p\<close>; \<open>w_reactions\<close> keeps them, one constructor for each place of the
  source that registers a pair, with what the closures capture.
\<close>

datatype sink_call =
    SinkStart promise
  | SinkWrite js_value promise
  | SinkClose promise
  | SinkAbort js_value promise

datatype w_reaction = OnStart | OnSinkWrite | OnSinkClose | OnSinkAbort PendingAbortRequest

text \<open>
  A \<^verbatim>\<open>WritableStream\<close> and its \<^verbatim>\<open>WritableStreamDefaultController\<close> refer to each other one
  to one; the record holds the fields of both, with the heap of promises. An algorithm
  slot of the controller is \<open>True\<close> while it holds the algorithm and \<open>False\<close> once
  \<^verbatim>\<open>WritableStreamDefaultControllerClearAlgorithms\<close> has set it to \<^verbatim>\<open>undefined\<close>.
  The strategy's size function is a function from the chunk to what the call does.
\<close>

record writable =
  w_heap :: heap
  w_calls :: "sink_call list"
  w_reactions :: "(promise \<times> w_reaction) list"
  w_state :: WritableStreamState
  w_storedError :: js_value
  w_writer :: "WritableStreamDefaultWriter option"
  w_writeRequests :: "promise list"
  w_inFlightWriteRequest :: "promise option"
  w_closeRequest :: "promise option"
  w_inFlightCloseRequest :: "promise option"
  w_pendingAbortRequest :: "PendingAbortRequest option"
  w_backpressure :: bool
  wc_queue :: "(QueueRecord \<times> real) list"
  wc_queueTotalSize :: real
  wc_started :: bool
  wc_strategySizeAlgorithm :: "(js_value \<Rightarrow> js_value completion) option"
  wc_strategyHWM :: real
  wc_writeAlgorithm :: bool
  wc_closeAlgorithm :: bool
  wc_abortAlgorithm :: bool

definition notAFunction :: js_value where
  "notAFunction = TypeError ''undefined is not a function''"

subsection \<open>Helper functions for the writer's two promises\<close>

definition defaultWriterClosedPromiseInitialize ::
  "WritableStreamDefaultWriter \<Rightarrow> heap \<Rightarrow> WritableStreamDefaultWriter \<times> heap" where
  "defaultWriterClosedPromiseInitialize wr h =
     (case newPromise h of (p, h') \<Rightarrow>
        (wr\<lparr>closedPromise := p, closedPromiseState := ClosedPending\<rparr>, h'))"

definition defaultWriterClosedPromiseReject ::
  "WritableStreamDefaultWriter \<Rightarrow> js_value \<Rightarrow> heap \<Rightarrow> WritableStreamDefaultWriter \<times> heap" where
  "defaultWriterClosedPromiseReject wr reason h =
     (wr\<lparr>closedPromiseState := ClosedRejected\<rparr>, rejectPromise (closedPromise wr) reason h)"

definition defaultWriterClosedPromiseResolve ::
  "WritableStreamDefaultWriter \<Rightarrow> heap \<Rightarrow> WritableStreamDefaultWriter \<times> heap" where
  "defaultWriterClosedPromiseResolve wr h =
     (wr\<lparr>closedPromiseState := ClosedResolved\<rparr>, resolvePromise (closedPromise wr) Undefined h)"

definition defaultWriterClosedPromiseInitializeAsRejected ::
  "WritableStreamDefaultWriter \<Rightarrow> js_value \<Rightarrow> heap \<Rightarrow> WritableStreamDefaultWriter \<times> heap" where
  "defaultWriterClosedPromiseInitializeAsRejected wr reason h =
     (case defaultWriterClosedPromiseInitialize wr h of (wr', h') \<Rightarrow>
        defaultWriterClosedPromiseReject wr' reason h')"

definition defaultWriterClosedPromiseInitializeAsResolved ::
  "WritableStreamDefaultWriter \<Rightarrow> heap \<Rightarrow> WritableStreamDefaultWriter \<times> heap" where
  "defaultWriterClosedPromiseInitializeAsResolved wr h =
     (case defaultWriterClosedPromiseInitialize wr h of (wr', h') \<Rightarrow>
        defaultWriterClosedPromiseResolve wr' h')"

definition defaultWriterClosedPromiseResetToRejected ::
  "WritableStreamDefaultWriter \<Rightarrow> js_value \<Rightarrow> heap \<Rightarrow> WritableStreamDefaultWriter \<times> heap" where
  "defaultWriterClosedPromiseResetToRejected wr reason h =
     defaultWriterClosedPromiseInitializeAsRejected wr reason h"

definition defaultWriterReadyPromiseInitialize ::
  "WritableStreamDefaultWriter \<Rightarrow> heap \<Rightarrow> WritableStreamDefaultWriter \<times> heap" where
  "defaultWriterReadyPromiseInitialize wr h =
     (case newPromise h of (p, h') \<Rightarrow>
        (wr\<lparr>readyPromise := p, readyPromiseState := ReadyPending\<rparr>, h'))"

definition defaultWriterReadyPromiseReject ::
  "WritableStreamDefaultWriter \<Rightarrow> js_value \<Rightarrow> heap \<Rightarrow> WritableStreamDefaultWriter \<times> heap" where
  "defaultWriterReadyPromiseReject wr reason h =
     (wr\<lparr>readyPromiseState := ReadyRejected\<rparr>, rejectPromise (readyPromise wr) reason h)"

definition defaultWriterReadyPromiseResolve ::
  "WritableStreamDefaultWriter \<Rightarrow> heap \<Rightarrow> WritableStreamDefaultWriter \<times> heap" where
  "defaultWriterReadyPromiseResolve wr h =
     (wr\<lparr>readyPromiseState := ReadyFulfilled\<rparr>, resolvePromise (readyPromise wr) Undefined h)"

definition defaultWriterReadyPromiseInitializeAsRejected ::
  "WritableStreamDefaultWriter \<Rightarrow> js_value \<Rightarrow> heap \<Rightarrow> WritableStreamDefaultWriter \<times> heap" where
  "defaultWriterReadyPromiseInitializeAsRejected wr reason h =
     (case defaultWriterReadyPromiseInitialize wr h of (wr', h') \<Rightarrow>
        defaultWriterReadyPromiseReject wr' reason h')"

definition defaultWriterReadyPromiseInitializeAsResolved ::
  "WritableStreamDefaultWriter \<Rightarrow> heap \<Rightarrow> WritableStreamDefaultWriter \<times> heap" where
  "defaultWriterReadyPromiseInitializeAsResolved wr h =
     (case defaultWriterReadyPromiseInitialize wr h of (wr', h') \<Rightarrow>
        defaultWriterReadyPromiseResolve wr' h')"

definition defaultWriterReadyPromiseReset ::
  "WritableStreamDefaultWriter \<Rightarrow> heap \<Rightarrow> WritableStreamDefaultWriter \<times> heap" where
  "defaultWriterReadyPromiseReset wr h = defaultWriterReadyPromiseInitialize wr h"

definition defaultWriterReadyPromiseResetToRejected ::
  "WritableStreamDefaultWriter \<Rightarrow> js_value \<Rightarrow> heap \<Rightarrow> WritableStreamDefaultWriter \<times> heap" where
  "defaultWriterReadyPromiseResetToRejected wr reason h =
     defaultWriterReadyPromiseInitializeAsRejected wr reason h"

definition WritableStreamDefaultWriterEnsureClosedPromiseRejected ::
  "WritableStreamDefaultWriter \<Rightarrow> js_value \<Rightarrow> heap \<Rightarrow> WritableStreamDefaultWriter \<times> heap" where
  "WritableStreamDefaultWriterEnsureClosedPromiseRejected wr error h =
     (if closedPromiseState wr = ClosedPending
      then defaultWriterClosedPromiseReject wr error h
      else defaultWriterClosedPromiseResetToRejected wr error h)"

definition WritableStreamDefaultWriterEnsureReadyPromiseRejected ::
  "WritableStreamDefaultWriter \<Rightarrow> js_value \<Rightarrow> heap \<Rightarrow> WritableStreamDefaultWriter \<times> heap" where
  "WritableStreamDefaultWriterEnsureReadyPromiseRejected wr error h =
     (if readyPromiseState wr = ReadyPending
      then defaultWriterReadyPromiseReject wr error h
      else defaultWriterReadyPromiseResetToRejected wr error h)"

text \<open>Applies one of the helpers above to the writer of a stream and the stream's heap.\<close>

definition withWriter ::
  "(WritableStreamDefaultWriter \<Rightarrow> heap \<Rightarrow> WritableStreamDefaultWriter \<times> heap) \<Rightarrow>
   WritableStreamDefaultWriter \<Rightarrow> writable \<Rightarrow> writable" where
  "withWriter f wr s =
     (case f wr (w_heap s) of (wr', h') \<Rightarrow> s\<lparr>w_writer := Some wr', w_heap := h'\<rparr>)"

subsection \<open>The queue with sizes\<close>

text \<open>
  Modelled from the spec: \<^verbatim>\<open>queue-with-sizes.ts\<close> (\<^verbatim>\<open>EnqueueValueWithSize\<close>,
  \<^verbatim>\<open>DequeueValue\<close>, \<^verbatim>\<open>PeekQueueValue\<close>, \<^verbatim>\<open>ResetQueue\<close>) is not among the sources.
  Section 4.A: enqueue takes a size that is at least 0 and finite, and fails with a range
  error otherwise; dequeue returns the head and decreases the total; peek returns the head
  without removing it; reset empties the queue and sets the total to 0; when the length
  becomes 0 the total is snapped to 0.
\<close>

definition IsFiniteNonNegativeNumber :: "js_value \<Rightarrow> bool" where
  "IsFiniteNonNegativeNumber v = (case v of Num x \<Rightarrow> 0 \<le> x | _ \<Rightarrow> False)"

definition numberOf :: "js_value \<Rightarrow> real" where
  "numberOf v = (case v of Num x \<Rightarrow> x | _ \<Rightarrow> 0)"

definition sizeRangeError :: js_value where
  "sizeRangeError = RangeError ''Size must be a finite, non-NaN, non-negative number.''"

definition DequeueTotal :: "('a \<times> real) list \<Rightarrow> real \<Rightarrow> real" where
  "DequeueTotal q t =
     (case q of [] \<Rightarrow> t | (v, sz) # rest \<Rightarrow> if rest = [] then 0 else t - sz)"

definition w_EnqueueValueWithSize :: "writable \<Rightarrow> QueueRecord \<Rightarrow> js_value \<Rightarrow> writable \<times> unit completion" where
  "w_EnqueueValueWithSize s v sz =
     (if IsFiniteNonNegativeNumber sz
      then (s\<lparr>wc_queue := wc_queue s @ [(v, numberOf sz)],
              wc_queueTotalSize := wc_queueTotalSize s + numberOf sz\<rparr>, Normal ())
      else (s, Throw sizeRangeError))"

definition w_DequeueValue :: "writable \<Rightarrow> writable" where
  "w_DequeueValue s =
     s\<lparr>wc_queueTotalSize := DequeueTotal (wc_queue s) (wc_queueTotalSize s),
       wc_queue := tl (wc_queue s)\<rparr>"

definition w_ResetQueue :: "writable \<Rightarrow> writable" where
  "w_ResetQueue s = s\<lparr>wc_queue := [], wc_queueTotalSize := 0\<rparr>"

subsection \<open>Abstract operations for the WritableStream\<close>

definition IsWritableStreamLocked :: "writable \<Rightarrow> bool" where
  "IsWritableStreamLocked s = (w_writer s \<noteq> None)"

definition WritableStreamCloseQueuedOrInFlight :: "writable \<Rightarrow> bool" where
  "WritableStreamCloseQueuedOrInFlight s =
     (\<not> (w_closeRequest s = None \<and> w_inFlightCloseRequest s = None))"

definition WritableStreamHasOperationMarkedInFlight :: "writable \<Rightarrow> bool" where
  "WritableStreamHasOperationMarkedInFlight s =
     (\<not> (w_inFlightWriteRequest s = None \<and> w_inFlightCloseRequest s = None))"

definition WritableStreamDefaultControllerClearAlgorithms :: "writable \<Rightarrow> writable" where
  "WritableStreamDefaultControllerClearAlgorithms s =
     s\<lparr>wc_writeAlgorithm := False, wc_closeAlgorithm := False, wc_abortAlgorithm := False,
       wc_strategySizeAlgorithm := None\<rparr>"

definition WritableStreamDefaultControllerGetDesiredSize :: "writable \<Rightarrow> real" where
  "WritableStreamDefaultControllerGetDesiredSize s = wc_strategyHWM s - wc_queueTotalSize s"

definition WritableStreamDefaultControllerGetBackpressure :: "writable \<Rightarrow> bool" where
  "WritableStreamDefaultControllerGetBackpressure s =
     (WritableStreamDefaultControllerGetDesiredSize s \<le> 0)"

definition WritableStreamRejectCloseAndClosedPromiseIfNeeded :: "writable \<Rightarrow> writable" where
  "WritableStreamRejectCloseAndClosedPromiseIfNeeded s =
     (let s1 = (case w_closeRequest s of
                  Some p \<Rightarrow> s\<lparr>w_heap := rejectPromise p (w_storedError s) (w_heap s),
                                w_closeRequest := None\<rparr>
                | None \<Rightarrow> s)
      in case w_writer s1 of
           Some wr \<Rightarrow> withWriter (\<lambda>x. defaultWriterClosedPromiseReject x (w_storedError s1)) wr s1
         | None \<Rightarrow> s1)"

definition WritableStreamUpdateBackpressure :: "writable \<Rightarrow> bool \<Rightarrow> writable" where
  "WritableStreamUpdateBackpressure s backpressure =
     (let s1 = (case w_writer s of
                  Some wr \<Rightarrow>
                    if backpressure \<noteq> w_backpressure s
                    then (if backpressure
                          then withWriter defaultWriterReadyPromiseReset wr s
                          else withWriter defaultWriterReadyPromiseResolve wr s)
                    else s
                | None \<Rightarrow> s)
      in s1\<lparr>w_backpressure := backpressure\<rparr>)"

text \<open>
  \<^verbatim>\<open>[AbortSteps](reason)\<close>: calls the abort algorithm, clears the algorithms and returns
  the promise of the call. Calling a cleared slot throws.
\<close>

definition w_AbortSteps :: "writable \<Rightarrow> js_value \<Rightarrow> writable \<times> promise completion" where
  "w_AbortSteps s reason =
     (if wc_abortAlgorithm s
      then (case newPromise (w_heap s) of (p, h') \<Rightarrow>
              (WritableStreamDefaultControllerClearAlgorithms
                 (s\<lparr>w_heap := h', w_calls := w_calls s @ [SinkAbort reason p]\<rparr>), Normal p))
      else (s, Throw notAFunction))"

definition w_ErrorSteps :: "writable \<Rightarrow> writable" where
  "w_ErrorSteps s = w_ResetQueue s"

definition WritableStreamFinishErroring :: "writable \<Rightarrow> writable \<times> unit completion" where
  "WritableStreamFinishErroring s =
     (let s1 = w_ErrorSteps (s\<lparr>w_state := Errored\<rparr>);
          storedError = w_storedError s1;
          s2 = s1\<lparr>w_heap := rejectAll (w_writeRequests s1) storedError (w_heap s1),
                 w_writeRequests := []\<rparr>
      in case w_pendingAbortRequest s2 of
           None \<Rightarrow> (WritableStreamRejectCloseAndClosedPromiseIfNeeded s2, Normal ())
         | Some abortRequest \<Rightarrow>
             (let s3 = s2\<lparr>w_pendingAbortRequest := None\<rparr>
              in if par_wasAlreadyErroring abortRequest
                 then (WritableStreamRejectCloseAndClosedPromiseIfNeeded
                         (s3\<lparr>w_heap := rejectPromise (par_promise abortRequest) storedError (w_heap s3)\<rparr>),
                       Normal ())
                 else (case w_AbortSteps s3 (par_reason abortRequest) of
                         (s4, Throw e) \<Rightarrow> (s4, Throw e)
                       | (s4, Normal promise) \<Rightarrow>
                           (s4\<lparr>w_reactions := w_reactions s4 @ [(promise, OnSinkAbort abortRequest)]\<rparr>,
                            Normal ()))))"

text \<open>The two closures \<^verbatim>\<open>WritableStreamFinishErroring\<close> registers on the abort promise.\<close>

definition FinishErroring_onFulfilled :: "PendingAbortRequest \<Rightarrow> writable \<Rightarrow> writable" where
  "FinishErroring_onFulfilled abortRequest s =
     WritableStreamRejectCloseAndClosedPromiseIfNeeded
       (s\<lparr>w_heap := resolvePromise (par_promise abortRequest) Undefined (w_heap s)\<rparr>)"

definition FinishErroring_onRejected :: "PendingAbortRequest \<Rightarrow> js_value \<Rightarrow> writable \<Rightarrow> writable" where
  "FinishErroring_onRejected abortRequest reason s =
     WritableStreamRejectCloseAndClosedPromiseIfNeeded
       (s\<lparr>w_heap := rejectPromise (par_promise abortRequest) reason (w_heap s)\<rparr>)"

definition WritableStreamStartErroring :: "writable \<Rightarrow> js_value \<Rightarrow> writable \<times> unit completion" where
  "WritableStreamStartErroring s reason =
     (let s1 = s\<lparr>w_state := Erroring, w_storedError := reason\<rparr>;
          s2 = (case w_writer s1 of
                  Some wr \<Rightarrow>
                    withWriter (\<lambda>x. WritableStreamDefaultWriterEnsureReadyPromiseRejected x reason) wr s1
                | None \<Rightarrow> s1)
      in if \<not> WritableStreamHasOperationMarkedInFlight s2 \<and> wc_started s2
         then WritableStreamFinishErroring s2
         else (s2, Normal ()))"

definition WritableStreamDealWithRejection :: "writable \<Rightarrow> js_value \<Rightarrow> writable \<times> unit completion" where
  "WritableStreamDealWithRejection s error =
     (if w_state s = Writable
      then WritableStreamStartErroring s error
      else WritableStreamFinishErroring s)"

definition WritableStreamAbort :: "writable \<Rightarrow> js_value \<Rightarrow> writable \<times> promise completion" where
  "WritableStreamAbort s reason =
     (if w_state s = Closed \<or> w_state s = Errored
      then (case promiseResolvedWith Undefined (w_heap s) of (p, h') \<Rightarrow>
              (s\<lparr>w_heap := h'\<rparr>, Normal p))
      else case w_pendingAbortRequest s of
             Some existing \<Rightarrow> (s, Normal (par_promise existing))
           | None \<Rightarrow>
               (let wasAlreadyErroring = (w_state s = Erroring);
                    reason' = (if wasAlreadyErroring then Undefined else reason)
                in case newPromise (w_heap s) of (promise, h') \<Rightarrow>
                     (let s1 = s\<lparr>w_heap := h',
                                  w_pendingAbortRequest :=
                                    Some \<lparr>par_promise = promise, par_reason = reason',
                                          par_wasAlreadyErroring = wasAlreadyErroring\<rparr>\<rparr>
                      in if \<not> wasAlreadyErroring
                         then (case WritableStreamStartErroring s1 reason' of
                                 (s2, Throw e) \<Rightarrow> (s2, Throw e)
                               | (s2, Normal u) \<Rightarrow> (s2, Normal promise))
                         else (s1, Normal promise))))"

definition WritableStreamDefaultControllerError :: "writable \<Rightarrow> js_value \<Rightarrow> writable \<times> unit completion" where
  "WritableStreamDefaultControllerError s error =
     WritableStreamStartErroring (WritableStreamDefaultControllerClearAlgorithms s) error"

definition WritableStreamDefaultControllerErrorIfNeeded :: "writable \<Rightarrow> js_value \<Rightarrow> writable \<times> unit completion" where
  "WritableStreamDefaultControllerErrorIfNeeded s error =
     (if w_state s = Writable
      then WritableStreamDefaultControllerError s error
      else (s, Normal ()))"

text \<open>
  \<^verbatim>\<open>WritableStreamDefaultController.prototype.error\<close>, called on a controller (the brand
  check passes).
\<close>

definition WritableStreamDefaultController_error :: "writable \<Rightarrow> js_value \<Rightarrow> writable \<times> unit completion" where
  "WritableStreamDefaultController_error s e =
     (if w_state s \<noteq> Writable
      then (s, Normal ())
      else WritableStreamDefaultControllerError s e)"

subsection \<open>In-flight requests\<close>

text \<open>
  The source asserts that the in-flight request is defined before it resolves or rejects
  it; where there is none the model settles nothing.
\<close>

definition settleRequest :: "promise option \<Rightarrow> outcome \<Rightarrow> heap \<Rightarrow> heap" where
  "settleRequest req out h = (case req of Some p \<Rightarrow> settlePromise p out h | None \<Rightarrow> h)"

definition WritableStreamFinishInFlightWrite :: "writable \<Rightarrow> writable" where
  "WritableStreamFinishInFlightWrite s =
     s\<lparr>w_heap := settleRequest (w_inFlightWriteRequest s) (Fulfil Undefined) (w_heap s),
       w_inFlightWriteRequest := None\<rparr>"

definition WritableStreamFinishInFlightWriteWithError :: "writable \<Rightarrow> js_value \<Rightarrow> writable \<times> unit completion" where
  "WritableStreamFinishInFlightWriteWithError s error =
     WritableStreamDealWithRejection
       (s\<lparr>w_heap := settleRequest (w_inFlightWriteRequest s) (Reject error) (w_heap s),
          w_inFlightWriteRequest := None\<rparr>)
       error"

definition WritableStreamFinishInFlightClose :: "writable \<Rightarrow> writable" where
  "WritableStreamFinishInFlightClose s =
     (let s1 = s\<lparr>w_heap := settleRequest (w_inFlightCloseRequest s) (Fulfil Undefined) (w_heap s),
                 w_inFlightCloseRequest := None\<rparr>;
          state = w_state s1;
          s2 = (if state = Erroring
                then (let s1' = s1\<lparr>w_storedError := Undefined\<rparr>
                      in case w_pendingAbortRequest s1' of
                           Some abortRequest \<Rightarrow>
                             s1'\<lparr>w_heap := resolvePromise (par_promise abortRequest) Undefined (w_heap s1'),
                                 w_pendingAbortRequest := None\<rparr>
                         | None \<Rightarrow> s1')
                else s1);
          s3 = s2\<lparr>w_state := Closed\<rparr>
      in case w_writer s3 of
           Some wr \<Rightarrow> withWriter defaultWriterClosedPromiseResolve wr s3
         | None \<Rightarrow> s3)"

definition WritableStreamFinishInFlightCloseWithError :: "writable \<Rightarrow> js_value \<Rightarrow> writable \<times> unit completion" where
  "WritableStreamFinishInFlightCloseWithError s error =
     (let s1 = s\<lparr>w_heap := settleRequest (w_inFlightCloseRequest s) (Reject error) (w_heap s),
                 w_inFlightCloseRequest := None\<rparr>;
          s2 = (case w_pendingAbortRequest s1 of
                  Some abortRequest \<Rightarrow>
                    s1\<lparr>w_heap := rejectPromise (par_promise abortRequest) error (w_heap s1),
                       w_pendingAbortRequest := None\<rparr>
                | None \<Rightarrow> s1)
      in WritableStreamDealWithRejection s2 error)"

definition WritableStreamMarkCloseRequestInFlight :: "writable \<Rightarrow> writable" where
  "WritableStreamMarkCloseRequestInFlight s =
     s\<lparr>w_inFlightCloseRequest := w_closeRequest s, w_closeRequest := None\<rparr>"

text \<open>\<^verbatim>\<open>_writeRequests.shift()\<close> of an empty queue is \<^verbatim>\<open>undefined\<close>.\<close>

definition WritableStreamMarkFirstWriteRequestInFlight :: "writable \<Rightarrow> writable" where
  "WritableStreamMarkFirstWriteRequestInFlight s =
     (case w_writeRequests s of
        [] \<Rightarrow> s\<lparr>w_inFlightWriteRequest := None\<rparr>
      | p # rest \<Rightarrow> s\<lparr>w_inFlightWriteRequest := Some p, w_writeRequests := rest\<rparr>)"

subsection \<open>Abstract operations for the WritableStreamDefaultController\<close>

definition WritableStreamDefaultControllerProcessClose :: "writable \<Rightarrow> writable \<times> unit completion" where
  "WritableStreamDefaultControllerProcessClose s =
     (let s1 = w_DequeueValue (WritableStreamMarkCloseRequestInFlight s)
      in if wc_closeAlgorithm s1
         then (case newPromise (w_heap s1) of (sinkClosePromise, h') \<Rightarrow>
                 (let s2 = WritableStreamDefaultControllerClearAlgorithms
                             (s1\<lparr>w_heap := h', w_calls := w_calls s1 @ [SinkClose sinkClosePromise]\<rparr>)
                  in (s2\<lparr>w_reactions := w_reactions s2 @ [(sinkClosePromise, OnSinkClose)]\<rparr>,
                      Normal ())))
         else (s1, Throw notAFunction))"

definition WritableStreamDefaultControllerProcessWrite :: "writable \<Rightarrow> js_value \<Rightarrow> writable \<times> unit completion" where
  "WritableStreamDefaultControllerProcessWrite s chunk =
     (let s1 = WritableStreamMarkFirstWriteRequestInFlight s
      in if wc_writeAlgorithm s1
         then (case newPromise (w_heap s1) of (sinkWritePromise, h') \<Rightarrow>
                 (s1\<lparr>w_heap := h', w_calls := w_calls s1 @ [SinkWrite chunk sinkWritePromise],
                     w_reactions := w_reactions s1 @ [(sinkWritePromise, OnSinkWrite)]\<rparr>,
                  Normal ()))
         else (s1, Throw notAFunction))"

definition WritableStreamDefaultControllerAdvanceQueueIfNeeded :: "writable \<Rightarrow> writable \<times> unit completion" where
  "WritableStreamDefaultControllerAdvanceQueueIfNeeded s =
     (if \<not> wc_started s then (s, Normal ())
      else if w_inFlightWriteRequest s \<noteq> None then (s, Normal ())
      else if w_state s = Erroring then WritableStreamFinishErroring s
      else case wc_queue s of
             [] \<Rightarrow> (s, Normal ())
           | (writeRecord, sz) # rest \<Rightarrow>
               (case writeRecord of
                  CloseMarker \<Rightarrow> WritableStreamDefaultControllerProcessClose s
                | WriteRecord chunk \<Rightarrow> WritableStreamDefaultControllerProcessWrite s chunk))"

text \<open>The two closures \<^verbatim>\<open>WritableStreamDefaultControllerProcessWrite\<close> registers.\<close>

definition ProcessWrite_onFulfilled :: "writable \<Rightarrow> writable \<times> unit completion" where
  "ProcessWrite_onFulfilled s =
     (let s1 = WritableStreamFinishInFlightWrite s;
          state = w_state s1;
          s2 = w_DequeueValue s1;
          s3 = (if \<not> WritableStreamCloseQueuedOrInFlight s2 \<and> state = Writable
                then WritableStreamUpdateBackpressure s2 (WritableStreamDefaultControllerGetBackpressure s2)
                else s2)
      in WritableStreamDefaultControllerAdvanceQueueIfNeeded s3)"

definition ProcessWrite_onRejected :: "js_value \<Rightarrow> writable \<Rightarrow> writable \<times> unit completion" where
  "ProcessWrite_onRejected reason s =
     WritableStreamFinishInFlightWriteWithError
       (if w_state s = Writable then WritableStreamDefaultControllerClearAlgorithms s else s)
       reason"

definition WritableStreamDefaultControllerClose :: "writable \<Rightarrow> writable \<times> unit completion" where
  "WritableStreamDefaultControllerClose s =
     (case w_EnqueueValueWithSize s CloseMarker (Num 0) of
        (s1, Throw e) \<Rightarrow> (s1, Throw e)
      | (s1, Normal u) \<Rightarrow> WritableStreamDefaultControllerAdvanceQueueIfNeeded s1)"

definition WritableStreamDefaultControllerGetChunkSize :: "writable \<Rightarrow> js_value \<Rightarrow> writable \<times> js_value completion" where
  "WritableStreamDefaultControllerGetChunkSize s chunk =
     (case (case wc_strategySizeAlgorithm s of
              None \<Rightarrow> Throw notAFunction
            | Some sizeAlgorithm \<Rightarrow> sizeAlgorithm chunk) of
        Normal sz \<Rightarrow> (s, Normal sz)
      | Throw chunkSizeE \<Rightarrow>
          (case WritableStreamDefaultControllerErrorIfNeeded s chunkSizeE of
             (s1, Throw e) \<Rightarrow> (s1, Throw e)
           | (s1, Normal u) \<Rightarrow> (s1, Normal (Num 1))))"

definition WritableStreamDefaultControllerWrite :: "writable \<Rightarrow> js_value \<Rightarrow> js_value \<Rightarrow> writable \<times> unit completion" where
  "WritableStreamDefaultControllerWrite s chunk chunkSize =
     (case w_EnqueueValueWithSize s (WriteRecord chunk) chunkSize of
        (s1, Throw enqueueE) \<Rightarrow> WritableStreamDefaultControllerErrorIfNeeded s1 enqueueE
      | (s1, Normal u) \<Rightarrow>
          (let s2 = (if \<not> WritableStreamCloseQueuedOrInFlight s1 \<and> w_state s1 = Writable
                     then WritableStreamUpdateBackpressure s1 (WritableStreamDefaultControllerGetBackpressure s1)
                     else s1)
           in WritableStreamDefaultControllerAdvanceQueueIfNeeded s2))"

subsection \<open>Close, write and the writer\<close>

definition closedStateError :: js_value where
  "closedStateError = TypeError ''The stream is not in the writable state and cannot be closed''"

definition closingOrClosedError :: js_value where
  "closingOrClosedError = TypeError ''The stream is closing or closed and cannot be written to''"

definition alreadyClosingError :: js_value where
  "alreadyClosingError = TypeError ''Cannot close an already-closing stream''"

definition releasedError :: js_value where
  "releasedError = TypeError ''Writer was released and can no longer be used to monitor the stream's closedness''"

definition alreadyLockedError :: js_value where
  "alreadyLockedError = TypeError ''This stream has already been locked for exclusive writing by another writer''"

definition rejectedWith :: "writable \<Rightarrow> js_value \<Rightarrow> writable \<times> promise completion" where
  "rejectedWith s r = (case promiseRejectedWith r (w_heap s) of (p, h') \<Rightarrow> (s\<lparr>w_heap := h'\<rparr>, Normal p))"

definition WritableStreamClose :: "writable \<Rightarrow> writable \<times> promise completion" where
  "WritableStreamClose s =
     (let state = w_state s
      in if state = Closed \<or> state = Errored
         then rejectedWith s closedStateError
         else (case newPromise (w_heap s) of (promise, h') \<Rightarrow>
                 (let s1 = s\<lparr>w_heap := h', w_closeRequest := Some promise\<rparr>;
                      s2 = (case w_writer s1 of
                              Some wr \<Rightarrow>
                                if w_backpressure s1 \<and> state = Writable
                                then withWriter defaultWriterReadyPromiseResolve wr s1
                                else s1
                            | None \<Rightarrow> s1)
                  in case WritableStreamDefaultControllerClose s2 of
                       (s3, Throw e) \<Rightarrow> (s3, Throw e)
                     | (s3, Normal u) \<Rightarrow> (s3, Normal promise))))"

definition WritableStreamAddWriteRequest :: "writable \<Rightarrow> writable \<times> promise" where
  "WritableStreamAddWriteRequest s =
     (case newPromise (w_heap s) of (promise, h') \<Rightarrow>
        (s\<lparr>w_heap := h', w_writeRequests := w_writeRequests s @ [promise]\<rparr>, promise))"

text \<open>
  \<^verbatim>\<open>WritableStreamDefaultWriterWrite\<close>. The size function is a function of the chunk only,
  so the writer still owns the stream after the call and the test
  \<^verbatim>\<open>stream !== writer._ownerWritableStream\<close> is false.
\<close>

definition WritableStreamDefaultWriterWrite :: "writable \<Rightarrow> js_value \<Rightarrow> writable \<times> promise completion" where
  "WritableStreamDefaultWriterWrite s chunk =
     (case WritableStreamDefaultControllerGetChunkSize s chunk of
        (s1, Throw e) \<Rightarrow> (s1, Throw e)
      | (s1, Normal chunkSize) \<Rightarrow>
          (let state = w_state s1
           in if state = Errored then rejectedWith s1 (w_storedError s1)
              else if WritableStreamCloseQueuedOrInFlight s1 \<or> state = Closed
                   then rejectedWith s1 closingOrClosedError
              else if state = Erroring then rejectedWith s1 (w_storedError s1)
              else (case WritableStreamAddWriteRequest s1 of (s2, promise) \<Rightarrow>
                      (case WritableStreamDefaultControllerWrite s2 chunk chunkSize of
                         (s3, Throw e) \<Rightarrow> (s3, Throw e)
                       | (s3, Normal u) \<Rightarrow> (s3, Normal promise)))))"

definition WritableStreamDefaultWriterClose :: "writable \<Rightarrow> writable \<times> promise completion" where
  "WritableStreamDefaultWriterClose s = WritableStreamClose s"

definition WritableStreamDefaultWriterAbort :: "writable \<Rightarrow> js_value \<Rightarrow> writable \<times> promise completion" where
  "WritableStreamDefaultWriterAbort s reason = WritableStreamAbort s reason"

definition WritableStreamDefaultWriterRelease :: "writable \<Rightarrow> writable" where
  "WritableStreamDefaultWriterRelease s =
     (case w_writer s of
        None \<Rightarrow> s
      | Some wr \<Rightarrow>
          (case WritableStreamDefaultWriterEnsureReadyPromiseRejected wr releasedError (w_heap s) of
             (wr1, h1) \<Rightarrow>
               (case WritableStreamDefaultWriterEnsureClosedPromiseRejected wr1 releasedError h1 of
                  (wr2, h2) \<Rightarrow> s\<lparr>w_heap := h2, w_writer := None\<rparr>)))"

text \<open>
  The constructor of \<^verbatim>\<open>WritableStreamDefaultWriter\<close>, called with a writable stream.
  The new writer's fields are set by the initialising helpers; \<open>newWriter\<close> is the object
  before they ran.
\<close>

definition newWriter :: WritableStreamDefaultWriter where
  "newWriter = \<lparr>closedPromise = 0, closedPromiseState = ClosedPending,
                readyPromise = 0, readyPromiseState = ReadyPending\<rparr>"

definition WritableStreamDefaultWriter_constructor :: "writable \<Rightarrow> writable \<times> unit completion" where
  "WritableStreamDefaultWriter_constructor s =
     (if IsWritableStreamLocked s then (s, Throw alreadyLockedError)
      else (let state = w_state s;
                h = w_heap s;
                (this, h2) =
                  (if state = Writable
                   then (case (if \<not> WritableStreamCloseQueuedOrInFlight s \<and> w_backpressure s
                               then defaultWriterReadyPromiseInitialize newWriter h
                               else defaultWriterReadyPromiseInitializeAsResolved newWriter h) of
                           (this1, h1) \<Rightarrow> defaultWriterClosedPromiseInitialize this1 h1)
                   else if state = Erroring
                   then (case defaultWriterReadyPromiseInitializeAsRejected newWriter (w_storedError s) h of
                           (this1, h1) \<Rightarrow> defaultWriterClosedPromiseInitialize this1 h1)
                   else if state = Closed
                   then (case defaultWriterReadyPromiseInitializeAsResolved newWriter h of
                           (this1, h1) \<Rightarrow> defaultWriterClosedPromiseInitializeAsResolved this1 h1)
                   else (let storedError = w_storedError s
                         in case defaultWriterReadyPromiseInitializeAsRejected newWriter storedError h of
                              (this1, h1) \<Rightarrow>
                                defaultWriterClosedPromiseInitializeAsRejected this1 storedError h1))
            in (s\<lparr>w_writer := Some this, w_heap := h2\<rparr>, Normal ())))"

subsection \<open>Construction\<close>

text \<open>
  \<^verbatim>\<open>InitializeWritableStream\<close> and \<^verbatim>\<open>SetUpWritableStreamDefaultController\<close>: the stream
  as \<^verbatim>\<open>CreateWritableStream\<close> and the constructor leave it, with the start algorithm called
  and the two closures registered on the promise of its result.
\<close>

definition InitializeWritableStream :: writable where
  "InitializeWritableStream =
     \<lparr>w_heap = [], w_calls = [], w_reactions = [],
      w_state = Writable, w_storedError = Undefined, w_writer = None,
      w_writeRequests = [], w_inFlightWriteRequest = None, w_closeRequest = None,
      w_inFlightCloseRequest = None, w_pendingAbortRequest = None, w_backpressure = False,
      wc_queue = [], wc_queueTotalSize = 0, wc_started = False,
      wc_strategySizeAlgorithm = None, wc_strategyHWM = 0,
      wc_writeAlgorithm = False, wc_closeAlgorithm = False, wc_abortAlgorithm = False\<rparr>"

definition SetUpWritableStreamDefaultController ::
  "writable \<Rightarrow> real \<Rightarrow> (js_value \<Rightarrow> js_value completion) \<Rightarrow> writable" where
  "SetUpWritableStreamDefaultController s highWaterMark sizeAlgorithm =
     (let s1 = (w_ResetQueue s)\<lparr>wc_started := False,
                 wc_strategySizeAlgorithm := Some sizeAlgorithm, wc_strategyHWM := highWaterMark,
                 wc_writeAlgorithm := True, wc_closeAlgorithm := True, wc_abortAlgorithm := True\<rparr>;
          s2 = WritableStreamUpdateBackpressure s1 (WritableStreamDefaultControllerGetBackpressure s1)
      in case newPromise (w_heap s2) of (startPromise, h') \<Rightarrow>
           s2\<lparr>w_heap := h', w_calls := w_calls s2 @ [SinkStart startPromise],
              w_reactions := w_reactions s2 @ [(startPromise, OnStart)]\<rparr>)"

definition CreateWritableStream :: "real \<Rightarrow> (js_value \<Rightarrow> js_value completion) \<Rightarrow> writable" where
  "CreateWritableStream highWaterMark sizeAlgorithm =
     SetUpWritableStreamDefaultController InitializeWritableStream highWaterMark sizeAlgorithm"

definition SetUp_onFulfilled :: "writable \<Rightarrow> writable \<times> unit completion" where
  "SetUp_onFulfilled s =
     WritableStreamDefaultControllerAdvanceQueueIfNeeded (s\<lparr>wc_started := True\<rparr>)"

definition SetUp_onRejected :: "js_value \<Rightarrow> writable \<Rightarrow> writable \<times> unit completion" where
  "SetUp_onRejected r s = WritableStreamDealWithRejection (s\<lparr>wc_started := True\<rparr>) r"

subsection \<open>The public methods\<close>

definition lockedAbortError :: js_value where
  "lockedAbortError = TypeError ''Cannot abort a stream that already has a writer''"

definition lockedCloseError :: js_value where
  "lockedCloseError = TypeError ''Cannot close a stream that already has a writer''"

definition WritableStream_abort :: "writable \<Rightarrow> js_value \<Rightarrow> writable \<times> promise completion" where
  "WritableStream_abort s reason =
     (if IsWritableStreamLocked s then rejectedWith s lockedAbortError
      else WritableStreamAbort s reason)"

definition WritableStream_close :: "writable \<Rightarrow> writable \<times> promise completion" where
  "WritableStream_close s =
     (if IsWritableStreamLocked s then rejectedWith s lockedCloseError
      else if WritableStreamCloseQueuedOrInFlight s then rejectedWith s alreadyClosingError
      else WritableStreamClose s)"

definition WritableStream_getWriter :: "writable \<Rightarrow> writable \<times> unit completion" where
  "WritableStream_getWriter s = WritableStreamDefaultWriter_constructor s"

text \<open>
  The methods of the writer that holds the lock. A writer that was released has no stream
  (\<^verbatim>\<open>_ownerWritableStream\<close> is \<^verbatim>\<open>undefined\<close>): its methods reject or return and leave the
  stream as it is.
\<close>

definition Writer_abort :: "writable \<Rightarrow> js_value \<Rightarrow> writable \<times> promise completion" where
  "Writer_abort s reason = WritableStreamDefaultWriterAbort s reason"

definition Writer_close :: "writable \<Rightarrow> writable \<times> promise completion" where
  "Writer_close s =
     (if WritableStreamCloseQueuedOrInFlight s then rejectedWith s alreadyClosingError
      else WritableStreamDefaultWriterClose s)"

definition Writer_releaseLock :: "writable \<Rightarrow> writable" where
  "Writer_releaseLock s = WritableStreamDefaultWriterRelease s"

definition Writer_write :: "writable \<Rightarrow> js_value \<Rightarrow> writable \<times> promise completion" where
  "Writer_write s chunk = WritableStreamDefaultWriterWrite s chunk"

subsection \<open>Events\<close>

text \<open>
  What can happen to a writable stream: a call of a public method, or the settling of a
  promise that the sink returned, which runs the closure registered on it. A promise
  settles once: the registration is removed when it runs. The methods of the writer are
  those of the writer that holds the lock.
\<close>

datatype w_event =
    CallAbort js_value
  | CallClose
  | CallGetWriter
  | CallWriterAbort js_value
  | CallWriterClose
  | CallWriterWrite js_value
  | CallWriterReleaseLock
  | CallControllerError js_value
  | Settle promise outcome

fun runReaction :: "w_reaction \<Rightarrow> outcome \<Rightarrow> writable \<Rightarrow> writable" where
  "runReaction OnStart (Fulfil v) s = fst (SetUp_onFulfilled s)"
| "runReaction OnStart (Reject r) s = fst (SetUp_onRejected r s)"
| "runReaction OnSinkWrite (Fulfil v) s = fst (ProcessWrite_onFulfilled s)"
| "runReaction OnSinkWrite (Reject r) s = fst (ProcessWrite_onRejected r s)"
| "runReaction OnSinkClose (Fulfil v) s = WritableStreamFinishInFlightClose s"
| "runReaction OnSinkClose (Reject r) s = fst (WritableStreamFinishInFlightCloseWithError s r)"
| "runReaction (OnSinkAbort abortRequest) (Fulfil v) s = FinishErroring_onFulfilled abortRequest s"
| "runReaction (OnSinkAbort abortRequest) (Reject r) s = FinishErroring_onRejected abortRequest r s"

definition settle :: "promise \<Rightarrow> outcome \<Rightarrow> writable \<Rightarrow> writable" where
  "settle p out s =
     (case map_of (w_reactions s) p of
        None \<Rightarrow> s
      | Some reaction \<Rightarrow>
          runReaction reaction out
            (s\<lparr>w_heap := settlePromise p out (w_heap s),
               w_reactions := filter (\<lambda>pr. fst pr \<noteq> p) (w_reactions s)\<rparr>))"

fun w_step :: "w_event \<Rightarrow> writable \<Rightarrow> writable" where
  "w_step (CallAbort reason) s = fst (WritableStream_abort s reason)"
| "w_step CallClose s = fst (WritableStream_close s)"
| "w_step CallGetWriter s = fst (WritableStream_getWriter s)"
| "w_step (CallWriterAbort reason) s = (if IsWritableStreamLocked s then fst (Writer_abort s reason) else s)"
| "w_step CallWriterClose s = (if IsWritableStreamLocked s then fst (Writer_close s) else s)"
| "w_step (CallWriterWrite chunk) s = (if IsWritableStreamLocked s then fst (Writer_write s chunk) else s)"
| "w_step CallWriterReleaseLock s = Writer_releaseLock s"
| "w_step (CallControllerError e) s = fst (WritableStreamDefaultController_error s e)"
| "w_step (Settle p out) s = settle p out s"

fun w_run :: "w_event list \<Rightarrow> writable \<Rightarrow> writable" where
  "w_run [] s = s"
| "w_run (e # es) s = w_run es (w_step e s)"

text \<open>The streams that can arise: a created stream, and what events make of it.\<close>

inductive w_reachable :: "writable \<Rightarrow> bool" where
  created: "w_reachable (CreateWritableStream highWaterMark sizeAlgorithm)"
| stepped: "w_reachable s \<Longrightarrow> w_reachable (w_step e s)"

text \<open>
  An abort request is pending only while the stream is erroring: the invariant that
  \<^verbatim>\<open>WritableStreamAbort\<close>, \<^verbatim>\<open>WritableStreamFinishErroring\<close> and the two
  \<^verbatim>\<open>WritableStreamFinishInFlightClose\<close> functions keep.
\<close>

definition abortInv :: "writable \<Rightarrow> bool" where
  "abortInv s = (w_pendingAbortRequest s = None \<or> w_state s = Erroring)"

text \<open>The number of times the sink's abort algorithm has been called.\<close>

definition abortCalls :: "writable \<Rightarrow> nat" where
  "abortCalls s = length (filter (\<lambda>c. case c of SinkAbort r p \<Rightarrow> True | _ \<Rightarrow> False) (w_calls s))"

section \<open>The readable stream (\<^verbatim>\<open>readable-stream.ts\<close>, \<^verbatim>\<open>default-controller.ts\<close>)\<close>

datatype ReadableStreamState = Readable | ReadableClosed | ReadableErrored

text \<open>
  \<^verbatim>\<open>ReadableStreamDefaultReader\<close>: a read request is the promise that \<^verbatim>\<open>read()\<close> returned
  (its \<^verbatim>\<open>_resolve\<close> and \<^verbatim>\<open>_reject\<close> are the resolving functions of that promise).
\<close>

record ReadableStreamDefaultReader =
  rd_forAuthorCode :: bool
  rd_closedPromise :: promise
  rd_readRequests :: "promise list"

datatype source_call =
    SourceStart promise
  | SourcePull promise
  | SourceCancel js_value promise

text \<open>
  The closures registered on the promises of the underlying source. \<open>OnCancel d\<close> is the
  pair \<^verbatim>\<open>transformPromiseWith(sourceCancelPromise, noop)\<close> registers, with the promise \<open>d\<close>
  it returned.
\<close>

datatype r_reaction = OnSourceStart | OnPull | OnCancel promise

text \<open>
  A \<^verbatim>\<open>ReadableStream\<close> with its \<^verbatim>\<open>ReadableStreamDefaultController\<close>, as for the writable
  stream.
\<close>

record readable =
  r_heap :: heap
  r_calls :: "source_call list"
  r_reactions :: "(promise \<times> r_reaction) list"
  r_state :: ReadableStreamState
  r_reader :: "ReadableStreamDefaultReader option"
  r_storedError :: js_value
  r_disturbed :: bool
  rc_queue :: "(js_value \<times> real) list"
  rc_queueTotalSize :: real
  rc_started :: bool
  rc_closeRequested :: bool
  rc_pullAgain :: bool
  rc_pulling :: bool
  rc_strategySizeAlgorithm :: "(js_value \<Rightarrow> js_value completion) option"
  rc_strategyHWM :: real
  rc_pullAlgorithm :: bool
  rc_cancelAlgorithm :: bool

definition r_EnqueueValueWithSize :: "readable \<Rightarrow> js_value \<Rightarrow> js_value \<Rightarrow> readable \<times> unit completion" where
  "r_EnqueueValueWithSize s v sz =
     (if IsFiniteNonNegativeNumber sz
      then (s\<lparr>rc_queue := rc_queue s @ [(v, numberOf sz)],
              rc_queueTotalSize := rc_queueTotalSize s + numberOf sz\<rparr>, Normal ())
      else (s, Throw sizeRangeError))"

definition r_DequeueValue :: "readable \<Rightarrow> readable" where
  "r_DequeueValue s =
     s\<lparr>rc_queueTotalSize := DequeueTotal (rc_queue s) (rc_queueTotalSize s),
       rc_queue := tl (rc_queue s)\<rparr>"

definition r_ResetQueue :: "readable \<Rightarrow> readable" where
  "r_ResetQueue s = s\<lparr>rc_queue := [], rc_queueTotalSize := 0\<rparr>"

subsection \<open>The stream and its reader\<close>

text \<open>
  Modelled from the spec: \<^verbatim>\<open>generic-reader.ts\<close> (\<^verbatim>\<open>ReadableStreamCreateReadResult\<close>,
  \<^verbatim>\<open>defaultReaderClosedPromiseResolve\<close>, \<^verbatim>\<open>defaultReaderClosedPromiseReject\<close>,
  \<^verbatim>\<open>ReadableStreamReaderGenericInitialize\<close>) is not among the sources. Section 6: a read
  result is a pair of a value and a done flag. Section 4.D: on close the reader's closed
  settlement fulfills, on error it rejects. Section 3: on construction of a reader the
  stream becomes locked to it.
\<close>

definition ReadableStreamCreateReadResult :: "js_value \<Rightarrow> bool \<Rightarrow> bool \<Rightarrow> js_value" where
  "ReadableStreamCreateReadResult v done forAuthorCode = ReadResult v done"

definition defaultReaderClosedPromiseResolve :: "ReadableStreamDefaultReader \<Rightarrow> heap \<Rightarrow> heap" where
  "defaultReaderClosedPromiseResolve reader h = resolvePromise (rd_closedPromise reader) Undefined h"

definition defaultReaderClosedPromiseReject :: "ReadableStreamDefaultReader \<Rightarrow> js_value \<Rightarrow> heap \<Rightarrow> heap" where
  "defaultReaderClosedPromiseReject reader reason h = rejectPromise (rd_closedPromise reader) reason h"

definition IsReadableStreamLocked :: "readable \<Rightarrow> bool" where
  "IsReadableStreamLocked s = (r_reader s \<noteq> None)"

text \<open>
  \<^verbatim>\<open>ReadableStreamGetNumReadRequests\<close> reads the reader's queue; the source calls it only
  behind \<^verbatim>\<open>IsReadableStreamLocked(stream) === true &&\<close>.
\<close>

definition ReadableStreamGetNumReadRequests :: "readable \<Rightarrow> nat" where
  "ReadableStreamGetNumReadRequests s =
     (case r_reader s of Some reader \<Rightarrow> length (rd_readRequests reader) | None \<Rightarrow> 0)"

definition ReadableStreamAddReadRequest :: "readable \<Rightarrow> readable \<times> promise" where
  "ReadableStreamAddReadRequest s =
     (case newPromise (r_heap s) of (promise, h') \<Rightarrow>
        (s\<lparr>r_heap := h',
           r_reader := map_option (\<lambda>reader. reader\<lparr>rd_readRequests := rd_readRequests reader @ [promise]\<rparr>)
                         (r_reader s)\<rparr>,
         promise))"

text \<open>The source asserts that the reader has a read request; with none nothing is resolved.\<close>

definition ReadableStreamFulfillReadRequest :: "readable \<Rightarrow> js_value \<Rightarrow> bool \<Rightarrow> readable" where
  "ReadableStreamFulfillReadRequest s chunk done =
     (case r_reader s of
        None \<Rightarrow> s
      | Some reader \<Rightarrow>
          (case rd_readRequests reader of
             [] \<Rightarrow> s
           | readRequest # rest \<Rightarrow>
               s\<lparr>r_reader := Some (reader\<lparr>rd_readRequests := rest\<rparr>),
                 r_heap := resolvePromise readRequest
                             (ReadableStreamCreateReadResult chunk done (rd_forAuthorCode reader))
                             (r_heap s)\<rparr>))"

definition ReadableStreamClose :: "readable \<Rightarrow> readable" where
  "ReadableStreamClose s =
     (let s1 = s\<lparr>r_state := ReadableClosed\<rparr>
      in case r_reader s1 of
           None \<Rightarrow> s1
         | Some reader \<Rightarrow>
             (let h1 = resolveAll (rd_readRequests reader)
                         (ReadableStreamCreateReadResult Undefined True (rd_forAuthorCode reader))
                         (r_heap s1);
                  reader' = reader\<lparr>rd_readRequests := []\<rparr>
              in s1\<lparr>r_reader := Some reader', r_heap := defaultReaderClosedPromiseResolve reader' h1\<rparr>))"

definition ReadableStreamError :: "readable \<Rightarrow> js_value \<Rightarrow> readable" where
  "ReadableStreamError s e =
     (let s1 = s\<lparr>r_state := ReadableErrored, r_storedError := e\<rparr>
      in case r_reader s1 of
           None \<Rightarrow> s1
         | Some reader \<Rightarrow>
             (let h1 = rejectAll (rd_readRequests reader) e (r_heap s1);
                  reader' = reader\<lparr>rd_readRequests := []\<rparr>
              in s1\<lparr>r_reader := Some reader', r_heap := defaultReaderClosedPromiseReject reader' e h1\<rparr>))"

subsection \<open>Abstract operations for the ReadableStreamDefaultController\<close>

definition ReadableStreamDefaultControllerClearAlgorithms :: "readable \<Rightarrow> readable" where
  "ReadableStreamDefaultControllerClearAlgorithms s =
     s\<lparr>rc_pullAlgorithm := False, rc_cancelAlgorithm := False, rc_strategySizeAlgorithm := None\<rparr>"

definition ReadableStreamDefaultControllerCanCloseOrEnqueue :: "readable \<Rightarrow> bool" where
  "ReadableStreamDefaultControllerCanCloseOrEnqueue s =
     (if rc_closeRequested s = False \<and> r_state s = Readable then True else False)"

text \<open>\<^verbatim>\<open>number | null\<close>: \<open>None\<close> is \<^verbatim>\<open>null\<close>.\<close>

definition ReadableStreamDefaultControllerGetDesiredSize :: "readable \<Rightarrow> real option" where
  "ReadableStreamDefaultControllerGetDesiredSize s =
     (if r_state s = ReadableErrored then None
      else if r_state s = ReadableClosed then Some 0
      else Some (rc_strategyHWM s - rc_queueTotalSize s))"

text \<open>The comparison \<^verbatim>\<open>null > 0\<close> is false.\<close>

definition ReadableStreamDefaultControllerShouldCallPull :: "readable \<Rightarrow> bool" where
  "ReadableStreamDefaultControllerShouldCallPull s =
     (if ReadableStreamDefaultControllerCanCloseOrEnqueue s = False then False
      else if rc_started s = False then False
      else if IsReadableStreamLocked s = True \<and> ReadableStreamGetNumReadRequests s > 0 then True
      else (case ReadableStreamDefaultControllerGetDesiredSize s of
              Some desiredSize \<Rightarrow> if desiredSize > 0 then True else False
            | None \<Rightarrow> False))"

definition ReadableStreamDefaultControllerHasBackpressure :: "readable \<Rightarrow> bool" where
  "ReadableStreamDefaultControllerHasBackpressure s =
     (if ReadableStreamDefaultControllerShouldCallPull s = True then False else True)"

definition ReadableStreamDefaultControllerError :: "readable \<Rightarrow> js_value \<Rightarrow> readable" where
  "ReadableStreamDefaultControllerError s e =
     (if r_state s \<noteq> Readable then s
      else ReadableStreamError (ReadableStreamDefaultControllerClearAlgorithms (r_ResetQueue s)) e)"

definition ReadableStreamDefaultControllerCallPullIfNeeded :: "readable \<Rightarrow> readable \<times> unit completion" where
  "ReadableStreamDefaultControllerCallPullIfNeeded s =
     (if ReadableStreamDefaultControllerShouldCallPull s = False then (s, Normal ())
      else if rc_pulling s = True then (s\<lparr>rc_pullAgain := True\<rparr>, Normal ())
      else (let s1 = s\<lparr>rc_pulling := True\<rparr>
            in if rc_pullAlgorithm s1
               then (case newPromise (r_heap s1) of (pullPromise, h') \<Rightarrow>
                       (s1\<lparr>r_heap := h', r_calls := r_calls s1 @ [SourcePull pullPromise],
                           r_reactions := r_reactions s1 @ [(pullPromise, OnPull)]\<rparr>, Normal ()))
               else (s1, Throw notAFunction)))"

definition CallPull_onFulfilled :: "readable \<Rightarrow> readable \<times> unit completion" where
  "CallPull_onFulfilled s =
     (let s1 = s\<lparr>rc_pulling := False\<rparr>
      in if rc_pullAgain s1 = True
         then ReadableStreamDefaultControllerCallPullIfNeeded (s1\<lparr>rc_pullAgain := False\<rparr>)
         else (s1, Normal ()))"

definition CallPull_onRejected :: "js_value \<Rightarrow> readable \<Rightarrow> readable" where
  "CallPull_onRejected e s = ReadableStreamDefaultControllerError s e"

definition ReadableStreamDefaultControllerClose :: "readable \<Rightarrow> readable" where
  "ReadableStreamDefaultControllerClose s =
     (let s1 = s\<lparr>rc_closeRequested := True\<rparr>
      in if rc_queue s1 = []
         then ReadableStreamClose (ReadableStreamDefaultControllerClearAlgorithms s1)
         else s1)"

definition ReadableStreamDefaultControllerEnqueue :: "readable \<Rightarrow> js_value \<Rightarrow> readable \<times> unit completion" where
  "ReadableStreamDefaultControllerEnqueue s chunk =
     (if IsReadableStreamLocked s = True \<and> ReadableStreamGetNumReadRequests s > 0
      then ReadableStreamDefaultControllerCallPullIfNeeded (ReadableStreamFulfillReadRequest s chunk False)
      else (case (case rc_strategySizeAlgorithm s of
                    None \<Rightarrow> Throw notAFunction
                  | Some sizeAlgorithm \<Rightarrow> sizeAlgorithm chunk) of
              Throw chunkSizeE \<Rightarrow> (ReadableStreamDefaultControllerError s chunkSizeE, Throw chunkSizeE)
            | Normal chunkSize \<Rightarrow>
                (case r_EnqueueValueWithSize s chunk chunkSize of
                   (s1, Throw enqueueE) \<Rightarrow> (ReadableStreamDefaultControllerError s1 enqueueE, Throw enqueueE)
                 | (s1, Normal u) \<Rightarrow> ReadableStreamDefaultControllerCallPullIfNeeded s1)))"

text \<open>\<^verbatim>\<open>[CancelSteps](reason)\<close> and \<^verbatim>\<open>[PullSteps]()\<close>.\<close>

definition r_CancelSteps :: "readable \<Rightarrow> js_value \<Rightarrow> readable \<times> promise completion" where
  "r_CancelSteps s reason =
     (let s1 = r_ResetQueue s
      in if rc_cancelAlgorithm s1
         then (case newPromise (r_heap s1) of (result, h') \<Rightarrow>
                 (ReadableStreamDefaultControllerClearAlgorithms
                    (s1\<lparr>r_heap := h', r_calls := r_calls s1 @ [SourceCancel reason result]\<rparr>),
                  Normal result))
         else (s1, Throw notAFunction))"

definition r_PullSteps :: "readable \<Rightarrow> readable \<times> promise completion" where
  "r_PullSteps s =
     (case rc_queue s of
        (chunk, sz) # rest \<Rightarrow>
          (let s1 = r_DequeueValue s;
               forAuthorCode = (case r_reader s1 of Some reader \<Rightarrow> rd_forAuthorCode reader | None \<Rightarrow> False)
           in case (if rc_closeRequested s1 = True \<and> rc_queue s1 = []
                    then (ReadableStreamClose (ReadableStreamDefaultControllerClearAlgorithms s1), Normal ())
                    else ReadableStreamDefaultControllerCallPullIfNeeded s1) of
                (s2, Throw e) \<Rightarrow> (s2, Throw e)
              | (s2, Normal u) \<Rightarrow>
                  (case promiseResolvedWith (ReadableStreamCreateReadResult chunk False forAuthorCode) (r_heap s2) of
                     (p, h') \<Rightarrow> (s2\<lparr>r_heap := h'\<rparr>, Normal p)))
      | [] \<Rightarrow>
          (case ReadableStreamAddReadRequest s of (s1, pendingPromise) \<Rightarrow>
             (case ReadableStreamDefaultControllerCallPullIfNeeded s1 of
                (s2, Throw e) \<Rightarrow> (s2, Throw e)
              | (s2, Normal u) \<Rightarrow> (s2, Normal pendingPromise))))"

subsection \<open>Cancel, read and construction\<close>

text \<open>
  \<^verbatim>\<open>ReadableStreamCancel\<close>. Modelled from the spec: \<^verbatim>\<open>transformPromiseWith\<close> of
  \<^verbatim>\<open>helpers.ts\<close> is not among the sources. Section 4.D: cancel returns the settlement from
  \<^verbatim>\<open>cancel_fn\<close> mapped to \<^verbatim>\<open>undefined\<close> on fulfillment. The returned promise is a new one,
  settled when the source's promise settles (\<open>Cancel_onSettled\<close>).
\<close>

definition ReadableStreamCancel :: "readable \<Rightarrow> js_value \<Rightarrow> readable \<times> promise completion" where
  "ReadableStreamCancel s reason =
     (let s0 = s\<lparr>r_disturbed := True\<rparr>
      in if r_state s0 = ReadableClosed
         then (case promiseResolvedWith Undefined (r_heap s0) of (p, h') \<Rightarrow> (s0\<lparr>r_heap := h'\<rparr>, Normal p))
         else if r_state s0 = ReadableErrored
         then (case promiseRejectedWith (r_storedError s0) (r_heap s0) of (p, h') \<Rightarrow>
                 (s0\<lparr>r_heap := h'\<rparr>, Normal p))
         else (case r_CancelSteps (ReadableStreamClose s0) reason of
                 (s1, Throw e) \<Rightarrow> (s1, Throw e)
               | (s1, Normal sourceCancelPromise) \<Rightarrow>
                   (case newPromise (r_heap s1) of (derived, h') \<Rightarrow>
                      (s1\<lparr>r_heap := h',
                          r_reactions := r_reactions s1 @ [(sourceCancelPromise, OnCancel derived)]\<rparr>,
                       Normal derived))))"

fun Cancel_onSettled :: "promise \<Rightarrow> outcome \<Rightarrow> readable \<Rightarrow> readable" where
  "Cancel_onSettled derived (Fulfil v) s = s\<lparr>r_heap := resolvePromise derived Undefined (r_heap s)\<rparr>"
| "Cancel_onSettled derived (Reject r) s = s\<lparr>r_heap := rejectPromise derived r (r_heap s)\<rparr>"

definition lockedCancelError :: js_value where
  "lockedCancelError = TypeError ''Cannot cancel a stream that already has a reader''"

definition ReadableStream_cancel :: "readable \<Rightarrow> js_value \<Rightarrow> readable \<times> promise completion" where
  "ReadableStream_cancel s reason =
     (if IsReadableStreamLocked s = True
      then (case promiseRejectedWith lockedCancelError (r_heap s) of (p, h') \<Rightarrow> (s\<lparr>r_heap := h'\<rparr>, Normal p))
      else ReadableStreamCancel s reason)"

definition ReadableStreamDefaultReaderRead :: "readable \<Rightarrow> readable \<times> promise completion" where
  "ReadableStreamDefaultReaderRead s =
     (let s0 = s\<lparr>r_disturbed := True\<rparr>;
          forAuthorCode = (case r_reader s0 of Some reader \<Rightarrow> rd_forAuthorCode reader | None \<Rightarrow> False)
      in if r_state s0 = ReadableClosed
         then (case promiseResolvedWith (ReadableStreamCreateReadResult Undefined True forAuthorCode) (r_heap s0) of
                 (p, h') \<Rightarrow> (s0\<lparr>r_heap := h'\<rparr>, Normal p))
         else if r_state s0 = ReadableErrored
         then (case promiseRejectedWith (r_storedError s0) (r_heap s0) of (p, h') \<Rightarrow>
                 (s0\<lparr>r_heap := h'\<rparr>, Normal p))
         else r_PullSteps s0)"

definition readerLockedError :: js_value where
  "readerLockedError = TypeError ''This stream has already been locked for exclusive reading by another reader''"

text \<open>
  \<^verbatim>\<open>AcquireReadableStreamDefaultReader\<close>: the constructor of the reader. The closed promise
  of the new reader is pending on a readable stream, fulfilled on a closed one and
  rejected with the stored error on an errored one.
\<close>

definition AcquireReadableStreamDefaultReader :: "readable \<Rightarrow> bool \<Rightarrow> readable \<times> unit completion" where
  "AcquireReadableStreamDefaultReader s forAuthorCode =
     (if IsReadableStreamLocked s = True then (s, Throw readerLockedError)
      else (case (if r_state s = Readable then newPromise (r_heap s)
                  else if r_state s = ReadableClosed then promiseResolvedWith Undefined (r_heap s)
                  else promiseRejectedWith (r_storedError s) (r_heap s)) of
              (p, h') \<Rightarrow>
                (s\<lparr>r_heap := h',
                   r_reader := Some \<lparr>rd_forAuthorCode = forAuthorCode, rd_closedPromise = p,
                                     rd_readRequests = []\<rparr>\<rparr>,
                 Normal ())))"

definition InitializeReadableStream :: readable where
  "InitializeReadableStream =
     \<lparr>r_heap = [], r_calls = [], r_reactions = [],
      r_state = Readable, r_reader = None, r_storedError = Undefined, r_disturbed = False,
      rc_queue = [], rc_queueTotalSize = 0, rc_started = False, rc_closeRequested = False,
      rc_pullAgain = False, rc_pulling = False, rc_strategySizeAlgorithm = None,
      rc_strategyHWM = 0, rc_pullAlgorithm = False, rc_cancelAlgorithm = False\<rparr>"

definition SetUpReadableStreamDefaultController ::
  "readable \<Rightarrow> real \<Rightarrow> (js_value \<Rightarrow> js_value completion) \<Rightarrow> readable" where
  "SetUpReadableStreamDefaultController s highWaterMark sizeAlgorithm =
     (let s1 = (r_ResetQueue s)\<lparr>rc_started := False, rc_closeRequested := False,
                 rc_pullAgain := False, rc_pulling := False,
                 rc_strategySizeAlgorithm := Some sizeAlgorithm, rc_strategyHWM := highWaterMark,
                 rc_pullAlgorithm := True, rc_cancelAlgorithm := True\<rparr>
      in case newPromise (r_heap s1) of (startPromise, h') \<Rightarrow>
           s1\<lparr>r_heap := h', r_calls := r_calls s1 @ [SourceStart startPromise],
              r_reactions := r_reactions s1 @ [(startPromise, OnSourceStart)]\<rparr>)"

definition CreateReadableStream :: "real \<Rightarrow> (js_value \<Rightarrow> js_value completion) \<Rightarrow> readable" where
  "CreateReadableStream highWaterMark sizeAlgorithm =
     SetUpReadableStreamDefaultController InitializeReadableStream highWaterMark sizeAlgorithm"

definition r_SetUp_onFulfilled :: "readable \<Rightarrow> readable \<times> unit completion" where
  "r_SetUp_onFulfilled s = ReadableStreamDefaultControllerCallPullIfNeeded (s\<lparr>rc_started := True\<rparr>)"

definition r_SetUp_onRejected :: "js_value \<Rightarrow> readable \<Rightarrow> readable" where
  "r_SetUp_onRejected r s = ReadableStreamDefaultControllerError s r"

text \<open>The public \<^verbatim>\<open>enqueue\<close> and \<^verbatim>\<open>close\<close> of the controller.\<close>

definition enqueueNotPermitted :: js_value where
  "enqueueNotPermitted = TypeError ''The stream is not in a state that permits enqueue''"

definition closeNotPermitted :: js_value where
  "closeNotPermitted = TypeError ''The stream is not in a state that permits close''"

definition ReadableStreamDefaultController_enqueue :: "readable \<Rightarrow> js_value \<Rightarrow> readable \<times> unit completion" where
  "ReadableStreamDefaultController_enqueue s chunk =
     (if ReadableStreamDefaultControllerCanCloseOrEnqueue s = False then (s, Throw enqueueNotPermitted)
      else ReadableStreamDefaultControllerEnqueue s chunk)"

definition ReadableStreamDefaultController_close :: "readable \<Rightarrow> readable \<times> unit completion" where
  "ReadableStreamDefaultController_close s =
     (if ReadableStreamDefaultControllerCanCloseOrEnqueue s = False then (s, Throw closeNotPermitted)
      else (ReadableStreamDefaultControllerClose s, Normal ()))"

subsection \<open>Events of the readable stream\<close>

datatype r_event =
    RCallCancel js_value
  | RCallGetReader
  | RCallRead
  | RCallEnqueue js_value
  | RCallClose
  | RCallError js_value
  | RSettle promise outcome

fun r_runReaction :: "r_reaction \<Rightarrow> outcome \<Rightarrow> readable \<Rightarrow> readable" where
  "r_runReaction OnSourceStart (Fulfil v) s = fst (r_SetUp_onFulfilled s)"
| "r_runReaction OnSourceStart (Reject r) s = r_SetUp_onRejected r s"
| "r_runReaction OnPull (Fulfil v) s = fst (CallPull_onFulfilled s)"
| "r_runReaction OnPull (Reject r) s = CallPull_onRejected r s"
| "r_runReaction (OnCancel derived) out s = Cancel_onSettled derived out s"

definition r_settle :: "promise \<Rightarrow> outcome \<Rightarrow> readable \<Rightarrow> readable" where
  "r_settle p out s =
     (case map_of (r_reactions s) p of
        None \<Rightarrow> s
      | Some reaction \<Rightarrow>
          r_runReaction reaction out
            (s\<lparr>r_heap := settlePromise p out (r_heap s),
               r_reactions := filter (\<lambda>pr. fst pr \<noteq> p) (r_reactions s)\<rparr>))"

fun r_step :: "r_event \<Rightarrow> readable \<Rightarrow> readable" where
  "r_step (RCallCancel reason) s = fst (ReadableStream_cancel s reason)"
| "r_step RCallGetReader s = fst (AcquireReadableStreamDefaultReader s True)"
| "r_step RCallRead s = (if IsReadableStreamLocked s then fst (ReadableStreamDefaultReaderRead s) else s)"
| "r_step (RCallEnqueue chunk) s = fst (ReadableStreamDefaultController_enqueue s chunk)"
| "r_step RCallClose s = fst (ReadableStreamDefaultController_close s)"
| "r_step (RCallError e) s = ReadableStreamDefaultControllerError s e"
| "r_step (RSettle p out) s = r_settle p out s"

fun r_run :: "r_event list \<Rightarrow> readable \<Rightarrow> readable" where
  "r_run [] s = s"
| "r_run (e # es) s = r_run es (r_step e s)"

definition cancelCalls :: "readable \<Rightarrow> nat" where
  "cancelCalls s = length (filter (\<lambda>c. case c of SourceCancel r p \<Rightarrow> True | _ \<Rightarrow> False) (r_calls s))"

section \<open>The transform stream (\<^verbatim>\<open>TransformStream\<close>, in \<^verbatim>\<open>byte-length-queuing-strategy.ts\<close>)\<close>

text \<open>
  The transformer is user code: a call of \<^verbatim>\<open>transform\<close> or \<^verbatim>\<open>flush\<close> is recorded with the
  promise it returned. \<open>OnFlush d\<close> is the pair of closures
  \<^verbatim>\<open>TransformStreamDefaultSinkCloseAlgorithm\<close> registers on the flush promise, with the
  promise \<open>d\<close> that \<^verbatim>\<open>transformPromiseWith\<close> returned to the writable side.
\<close>

datatype transformer_call = TransformCall js_value promise | FlushCall promise

datatype t_reaction = OnFlush promise

text \<open>
  \<^verbatim>\<open>TransformStream\<close> with its \<^verbatim>\<open>TransformStreamDefaultController\<close>. The two sides are the
  streams of the previous sections, each with its own promises; \<open>t_heap\<close> holds the
  promises the transform stream creates itself. \<^verbatim>\<open>_backpressure\<close> and
  \<^verbatim>\<open>_backpressureChangePromise\<close> are \<^verbatim>\<open>undefined\<close> (\<open>None\<close>) until the first
  \<^verbatim>\<open>TransformStreamSetBackpressure\<close>.
\<close>

record transform =
  t_heap :: heap
  t_calls :: "transformer_call list"
  t_reactions :: "(promise \<times> t_reaction) list"
  t_writable :: writable
  t_readable :: readable
  t_backpressure :: "bool option"
  t_backpressureChangePromise :: "promise option"
  tc_transformAlgorithm :: bool
  tc_flushAlgorithm :: bool

definition TransformStreamSetBackpressure :: "transform \<Rightarrow> bool \<Rightarrow> transform" where
  "TransformStreamSetBackpressure t backpressure =
     (let h1 = (case t_backpressureChangePromise t of
                  Some p \<Rightarrow> resolvePromise p Undefined (t_heap t)
                | None \<Rightarrow> t_heap t)
      in case newPromise h1 of (p', h2) \<Rightarrow>
           t\<lparr>t_heap := h2, t_backpressureChangePromise := Some p', t_backpressure := Some backpressure\<rparr>)"

text \<open>
  \<^verbatim>\<open>TransformStreamDefaultSourcePullAlgorithm\<close> returns what the slot
  \<^verbatim>\<open>_backpressureChangePromise\<close> holds after \<^verbatim>\<open>TransformStreamSetBackpressure\<close>.
\<close>

definition TransformStreamDefaultSourcePullAlgorithm :: "transform \<Rightarrow> transform \<times> promise option" where
  "TransformStreamDefaultSourcePullAlgorithm t =
     (let t1 = TransformStreamSetBackpressure t False
      in (t1, t_backpressureChangePromise t1))"

definition TransformStreamDefaultControllerClearAlgorithms :: "transform \<Rightarrow> transform" where
  "TransformStreamDefaultControllerClearAlgorithms t =
     t\<lparr>tc_transformAlgorithm := False, tc_flushAlgorithm := False\<rparr>"

definition TransformStreamErrorWritableAndUnblockWrite :: "transform \<Rightarrow> js_value \<Rightarrow> transform \<times> unit completion" where
  "TransformStreamErrorWritableAndUnblockWrite t e =
     (let t1 = TransformStreamDefaultControllerClearAlgorithms t
      in case WritableStreamDefaultControllerErrorIfNeeded (t_writable t1) e of
           (w', Throw x) \<Rightarrow> (t1\<lparr>t_writable := w'\<rparr>, Throw x)
         | (w', Normal u) \<Rightarrow>
             (let t2 = t1\<lparr>t_writable := w'\<rparr>
              in if t_backpressure t2 = Some True
                 then (TransformStreamSetBackpressure t2 False, Normal ())
                 else (t2, Normal ())))"

definition TransformStreamError :: "transform \<Rightarrow> js_value \<Rightarrow> transform \<times> unit completion" where
  "TransformStreamError t e =
     TransformStreamErrorWritableAndUnblockWrite
       (t\<lparr>t_readable := ReadableStreamDefaultControllerError (t_readable t) e\<rparr>) e"

definition terminatedError :: js_value where
  "terminatedError = TypeError ''TransformStream terminated''"

definition TransformStreamDefaultControllerTerminate :: "transform \<Rightarrow> transform \<times> unit completion" where
  "TransformStreamDefaultControllerTerminate t =
     (let t1 = (if ReadableStreamDefaultControllerCanCloseOrEnqueue (t_readable t) = True
                then t\<lparr>t_readable := ReadableStreamDefaultControllerClose (t_readable t)\<rparr>
                else t)
      in TransformStreamErrorWritableAndUnblockWrite t1 terminatedError)"

text \<open>
  \<^verbatim>\<open>TransformStreamDefaultSinkCloseAlgorithm\<close>: the call of the flush algorithm, then the
  two closures. A closure that throws rejects the promise returned to the writable side
  with what it threw; one that returns fulfills it with \<^verbatim>\<open>undefined\<close>.
\<close>

definition TransformStreamDefaultSinkCloseAlgorithm :: "transform \<Rightarrow> transform \<times> promise completion" where
  "TransformStreamDefaultSinkCloseAlgorithm t =
     (if tc_flushAlgorithm t
      then (case newPromise (t_heap t) of (flushPromise, h1) \<Rightarrow>
              (let t1 = TransformStreamDefaultControllerClearAlgorithms
                          (t\<lparr>t_heap := h1, t_calls := t_calls t @ [FlushCall flushPromise]\<rparr>)
               in case newPromise (t_heap t1) of (derived, h2) \<Rightarrow>
                    (t1\<lparr>t_heap := h2, t_reactions := t_reactions t1 @ [(flushPromise, OnFlush derived)]\<rparr>,
                     Normal derived)))
      else (t, Throw notAFunction))"

definition SinkClose_onFulfilled :: "transform \<Rightarrow> transform \<times> unit completion" where
  "SinkClose_onFulfilled t =
     (let readable = t_readable t
      in if r_state readable = ReadableErrored then (t, Throw (r_storedError readable))
         else if ReadableStreamDefaultControllerCanCloseOrEnqueue readable = True
         then (t\<lparr>t_readable := ReadableStreamDefaultControllerClose readable\<rparr>, Normal ())
         else (t, Normal ()))"

definition SinkClose_onRejected :: "js_value \<Rightarrow> transform \<Rightarrow> transform \<times> unit completion" where
  "SinkClose_onRejected r t =
     (case TransformStreamError t r of
        (t1, Throw x) \<Rightarrow> (t1, Throw x)
      | (t1, Normal u) \<Rightarrow> (t1, Throw (r_storedError (t_readable t1))))"



text \<open>
  \<^verbatim>\<open>InitializeTransformStream\<close>: the two sides are created, then
  \<^verbatim>\<open>TransformStreamSetBackpressure(stream, true)\<close>;
  \<^verbatim>\<open>SetUpTransformStreamDefaultController\<close> stores the two algorithms.
\<close>

definition InitializeTransformStream ::
  "real \<Rightarrow> (js_value \<Rightarrow> js_value completion) \<Rightarrow> real \<Rightarrow> (js_value \<Rightarrow> js_value completion) \<Rightarrow> transform" where
  "InitializeTransformStream writableHighWaterMark writableSizeAlgorithm
       readableHighWaterMark readableSizeAlgorithm =
     TransformStreamSetBackpressure
       \<lparr>t_heap = [], t_calls = [], t_reactions = [],
        t_writable = CreateWritableStream writableHighWaterMark writableSizeAlgorithm,
        t_readable = CreateReadableStream readableHighWaterMark readableSizeAlgorithm,
        t_backpressure = None, t_backpressureChangePromise = None,
        tc_transformAlgorithm = False, tc_flushAlgorithm = False\<rparr>
       True"

definition SetUpTransformStreamDefaultController :: "transform \<Rightarrow> transform" where
  "SetUpTransformStreamDefaultController t = t\<lparr>tc_transformAlgorithm := True, tc_flushAlgorithm := True\<rparr>"

definition CreateTransformStream ::
  "real \<Rightarrow> (js_value \<Rightarrow> js_value completion) \<Rightarrow> real \<Rightarrow> (js_value \<Rightarrow> js_value completion) \<Rightarrow> transform" where
  "CreateTransformStream writableHighWaterMark writableSizeAlgorithm
       readableHighWaterMark readableSizeAlgorithm =
     SetUpTransformStreamDefaultController
       (InitializeTransformStream writableHighWaterMark writableSizeAlgorithm
          readableHighWaterMark readableSizeAlgorithm)"

text \<open>Concrete streams for the examples: the count strategy and a size function that throws.\<close>

definition countSize :: "js_value \<Rightarrow> js_value completion" where
  "countSize chunk = Normal (Num 1)"

definition throwingSize :: "js_value \<Rightarrow> js_value completion" where
  "throwingSize chunk = Throw (Opaque 99)"

definition erroredExample :: writable where
  "erroredExample = w_run [Settle 0 (Reject (Opaque 1))] (CreateWritableStream 1 countSize)"

definition startedExample :: writable where
  "startedExample = w_run [Settle 0 (Fulfil Undefined)] (CreateWritableStream 1 countSize)"

definition closedExample :: writable where
  "closedExample = w_run [CallClose, Settle 2 (Fulfil Undefined)] startedExample"

definition abortingExample :: writable where
  "abortingExample = w_run [CallClose, CallAbort (Opaque 7)] startedExample"

definition erroringExample :: writable where
  "erroringExample = w_run [CallGetWriter, CallWriterWrite (Opaque 1), CallControllerError (Opaque 5)] startedExample"

definition transformExample :: transform where
  "transformExample = CreateTransformStream 1 countSize 0 countSize"

definition readableExample :: readable where
  "readableExample = r_run [RSettle 0 (Fulfil Undefined)] (CreateReadableStream 1 countSize)"


definition throwingReadableExample :: readable where
  "throwingReadableExample = CreateReadableStream 1 throwingSize"



text \<open>
  A transform stream whose writable side is closing, so that the sink close algorithm has
  called flush; and the same stream after flush has called \<^verbatim>\<open>controller.terminate()\<close>.
\<close>

definition closingTransformExample :: transform where
  "closingTransformExample =
     fst (TransformStreamDefaultSinkCloseAlgorithm
            ((CreateTransformStream 1 countSize 0 countSize)
               \<lparr>t_writable := w_run [Settle 0 (Fulfil Undefined), CallClose]
                                (CreateWritableStream 1 countSize)\<rparr>))"

definition terminatedTransformExample :: transform where
  "terminatedTransformExample = fst (TransformStreamDefaultControllerTerminate closingTransformExample)"

section \<open>Observations of a writable stream\<close>

text \<open>
  What the properties over all later events observe of a writable stream: its state, its
  pending abort request, the calls the sink has received and the controller's queue.
\<close>

definition view :: "writable \<Rightarrow> WritableStreamState \<times> PendingAbortRequest option \<times> sink_call list \<times> (QueueRecord \<times> real) list" where
  "view s = (w_state s, w_pendingAbortRequest s, w_calls s, wc_queue s)"

text \<open>The chunks waiting in a queue, and the chunks the sink's write algorithm has received.\<close>

definition queueChunks :: "(QueueRecord \<times> real) list \<Rightarrow> js_value list" where
  "queueChunks q = concat (map (\<lambda>(v, sz). case v of WriteRecord c \<Rightarrow> [c] | CloseMarker \<Rightarrow> []) q)"

definition sinkWriteChunks :: "sink_call list \<Rightarrow> js_value list" where
  "sinkWriteChunks cs = concat (map (\<lambda>c. case c of SinkWrite chunk p \<Rightarrow> [chunk] | _ \<Rightarrow> []) cs)"

definition countAborts :: "sink_call list \<Rightarrow> nat" where
  "countAborts cs = length (filter (\<lambda>c. case c of SinkAbort r p \<Rightarrow> True | _ \<Rightarrow> False) cs)"

text \<open>
  Two properties of the observation: the stream is closed or errored with no pending abort
  and \<open>n\<close> calls of the sink's abort algorithm; the stream has left the writable state and
  all chunks queued or written are among \<open>S\<close>.
\<close>

definition terminalV :: "nat \<Rightarrow> WritableStreamState \<times> PendingAbortRequest option \<times> sink_call list \<times> (QueueRecord \<times> real) list \<Rightarrow> bool" where
  "terminalV n v = (case v of (st, pending, calls, q) \<Rightarrow>
       (st = Closed \<or> st = Errored) \<and> pending = None \<and> countAborts calls = n)"

definition terminalInv :: "nat \<Rightarrow> writable \<Rightarrow> bool" where
  "terminalInv n s = terminalV n (view s)"

definition noNewWritesV :: "js_value set \<Rightarrow> WritableStreamState \<times> PendingAbortRequest option \<times> sink_call list \<times> (QueueRecord \<times> real) list \<Rightarrow> bool" where
  "noNewWritesV S v = (case v of (st, pending, calls, q) \<Rightarrow>
       st \<noteq> Writable \<and> set (queueChunks q) \<union> set (sinkWriteChunks calls) \<subseteq> S)"

definition noNewWrites :: "js_value set \<Rightarrow> writable \<Rightarrow> bool" where
  "noNewWrites S s = noNewWritesV S (view s)"

text \<open>
  A property of the observation is stable when it excludes the writable state and is kept
  by each change the operations of a stream outside the writable state can make to it.
\<close>

definition vstable ::
  "(WritableStreamState \<times> PendingAbortRequest option \<times> sink_call list \<times> (QueueRecord \<times> real) list \<Rightarrow> bool)
   \<Rightarrow> bool" where
  "vstable P =
     (\<forall>st pend calls q.
        P (st, pend, calls, q) \<longrightarrow>
          st \<noteq> Writable \<and>
          P (Errored, None, calls, []) \<and>
          (pend \<noteq> None \<longrightarrow> (\<forall>r p. P (Errored, None, calls @ [SinkAbort r p], []))) \<and>
          (\<forall>p. P (st, pend, calls @ [SinkClose p], q)) \<and>
          P (st, pend, calls, tl q) \<and>
          (\<forall>c sz rest p. q = (WriteRecord c, sz) # rest \<longrightarrow> P (st, pend, calls @ [SinkWrite c p], q)) \<and>
          P (st, pend, calls, q @ [(CloseMarker, 0)]) \<and>
          (st = Erroring \<and> pend = None \<longrightarrow> (\<forall>ar. P (Erroring, Some ar, calls, q))) \<and>
          P (Closed, (if st = Erroring then None else pend), calls, q) \<and>
          P (st, None, calls, q))"

section \<open>The promises a writable stream refers to\<close>

text \<open>
  The promises a stream can settle: the write requests, the close request, the requests
  in flight, the two promises of the writer, and the promises that closures are
  registered on, with the promise of an abort request that such a closure has captured.
\<close>

definition reactionRefs :: "promise \<times> w_reaction \<Rightarrow> promise set" where
  "reactionRefs pr =
     insert (fst pr) (case snd pr of OnSinkAbort abortRequest \<Rightarrow> {par_promise abortRequest} | _ \<Rightarrow> {})"

definition writerRefs :: "WritableStreamDefaultWriter option \<Rightarrow> promise set" where
  "writerRefs w = (case w of None \<Rightarrow> {} | Some wr \<Rightarrow> {closedPromise wr, readyPromise wr})"

definition refs :: "writable \<Rightarrow> promise set" where
  "refs s =
     set (w_writeRequests s) \<union> set_option (w_inFlightWriteRequest s) \<union>
     set_option (w_closeRequest s) \<union> set_option (w_inFlightCloseRequest s) \<union>
     writerRefs (w_writer s) \<union> (\<Union>pr\<in>set (w_reactions s). reactionRefs pr)"

text \<open>
  Every promise the stream refers to is in the heap, and the promise of a pending abort
  request is in the heap, pending, and none of the promises above.
\<close>

definition heapInv :: "writable \<Rightarrow> bool" where
  "heapInv s =
     ((\<forall>q\<in>refs s. q < length (w_heap s)) \<and>
      (\<forall>abortRequest\<in>set_option (w_pendingAbortRequest s).
           par_promise abortRequest < length (w_heap s) \<and>
           w_heap s ! par_promise abortRequest = Pending \<and>
           par_promise abortRequest \<notin> refs s))"

section \<open>Verification\<close>

subsection \<open>Unfolding the model\<close>

lemmas promise_defs =
  lookupPromise_def newPromise_def promiseResolvedWith_def promiseRejectedWith_def
  resolvePromise_def rejectPromise_def settleRequest_def

lemmas writer_helper_defs =
  defaultWriterClosedPromiseInitialize_def defaultWriterClosedPromiseReject_def
  defaultWriterClosedPromiseResolve_def defaultWriterClosedPromiseInitializeAsRejected_def
  defaultWriterClosedPromiseInitializeAsResolved_def defaultWriterClosedPromiseResetToRejected_def
  defaultWriterReadyPromiseInitialize_def defaultWriterReadyPromiseReject_def
  defaultWriterReadyPromiseResolve_def defaultWriterReadyPromiseInitializeAsRejected_def
  defaultWriterReadyPromiseInitializeAsResolved_def defaultWriterReadyPromiseReset_def
  defaultWriterReadyPromiseResetToRejected_def
  WritableStreamDefaultWriterEnsureClosedPromiseRejected_def
  WritableStreamDefaultWriterEnsureReadyPromiseRejected_def withWriter_def newWriter_def

lemmas w_defs =
  IsFiniteNonNegativeNumber_def numberOf_def DequeueTotal_def w_EnqueueValueWithSize_def
  w_DequeueValue_def w_ResetQueue_def IsWritableStreamLocked_def
  WritableStreamCloseQueuedOrInFlight_def WritableStreamHasOperationMarkedInFlight_def
  WritableStreamDefaultControllerClearAlgorithms_def
  WritableStreamDefaultControllerGetDesiredSize_def
  WritableStreamDefaultControllerGetBackpressure_def
  WritableStreamRejectCloseAndClosedPromiseIfNeeded_def WritableStreamUpdateBackpressure_def
  w_AbortSteps_def w_ErrorSteps_def WritableStreamFinishErroring_def
  FinishErroring_onFulfilled_def FinishErroring_onRejected_def
  WritableStreamStartErroring_def WritableStreamDealWithRejection_def WritableStreamAbort_def
  WritableStreamDefaultControllerError_def WritableStreamDefaultControllerErrorIfNeeded_def
  WritableStreamDefaultController_error_def WritableStreamFinishInFlightWrite_def
  WritableStreamFinishInFlightWriteWithError_def WritableStreamFinishInFlightClose_def
  WritableStreamFinishInFlightCloseWithError_def WritableStreamMarkCloseRequestInFlight_def
  WritableStreamMarkFirstWriteRequestInFlight_def
  WritableStreamDefaultControllerProcessClose_def WritableStreamDefaultControllerProcessWrite_def
  WritableStreamDefaultControllerAdvanceQueueIfNeeded_def ProcessWrite_onFulfilled_def
  ProcessWrite_onRejected_def WritableStreamDefaultControllerClose_def
  WritableStreamDefaultControllerGetChunkSize_def WritableStreamDefaultControllerWrite_def
  rejectedWith_def WritableStreamClose_def WritableStreamAddWriteRequest_def
  WritableStreamDefaultWriterWrite_def WritableStreamDefaultWriterClose_def
  WritableStreamDefaultWriterAbort_def WritableStreamDefaultWriterRelease_def
  WritableStreamDefaultWriter_constructor_def InitializeWritableStream_def
  SetUpWritableStreamDefaultController_def CreateWritableStream_def SetUp_onFulfilled_def
  SetUp_onRejected_def WritableStream_abort_def WritableStream_close_def
  WritableStream_getWriter_def Writer_abort_def Writer_close_def Writer_releaseLock_def
  Writer_write_def settle_def countSize_def throwingSize_def

lemmas r_defs =
  r_EnqueueValueWithSize_def r_DequeueValue_def r_ResetQueue_def
  ReadableStreamCreateReadResult_def defaultReaderClosedPromiseResolve_def
  defaultReaderClosedPromiseReject_def IsReadableStreamLocked_def
  ReadableStreamGetNumReadRequests_def ReadableStreamAddReadRequest_def
  ReadableStreamFulfillReadRequest_def ReadableStreamClose_def ReadableStreamError_def
  ReadableStreamDefaultControllerClearAlgorithms_def
  ReadableStreamDefaultControllerCanCloseOrEnqueue_def
  ReadableStreamDefaultControllerGetDesiredSize_def
  ReadableStreamDefaultControllerShouldCallPull_def
  ReadableStreamDefaultControllerHasBackpressure_def ReadableStreamDefaultControllerError_def
  ReadableStreamDefaultControllerCallPullIfNeeded_def CallPull_onFulfilled_def
  CallPull_onRejected_def ReadableStreamDefaultControllerClose_def
  ReadableStreamDefaultControllerEnqueue_def r_CancelSteps_def r_PullSteps_def
  ReadableStreamCancel_def ReadableStream_cancel_def ReadableStreamDefaultReaderRead_def
  AcquireReadableStreamDefaultReader_def InitializeReadableStream_def
  SetUpReadableStreamDefaultController_def CreateReadableStream_def r_SetUp_onFulfilled_def
  r_SetUp_onRejected_def ReadableStreamDefaultController_enqueue_def
  ReadableStreamDefaultController_close_def r_settle_def IsFiniteNonNegativeNumber_def
  numberOf_def DequeueTotal_def countSize_def throwingSize_def

lemmas t_defs = TransformStreamSetBackpressure_def TransformStreamDefaultSourcePullAlgorithm_def
  TransformStreamDefaultControllerClearAlgorithms_def TransformStreamErrorWritableAndUnblockWrite_def
  TransformStreamError_def TransformStreamDefaultControllerTerminate_def
  TransformStreamDefaultSinkCloseAlgorithm_def SinkClose_onFulfilled_def SinkClose_onRejected_def
  InitializeTransformStream_def SetUpTransformStreamDefaultController_def CreateTransformStream_def

subsection \<open>A pending abort request implies the erroring state\<close>

lemma withWriter_frame [simp]:
  "w_state (withWriter f wr s) = w_state s"
  "w_pendingAbortRequest (withWriter f wr s) = w_pendingAbortRequest s"
  by (simp_all add: withWriter_def split: prod.splits)

lemma Reject_frame [simp]:
  "w_state (WritableStreamRejectCloseAndClosedPromiseIfNeeded s) = w_state s"
  "w_pendingAbortRequest (WritableStreamRejectCloseAndClosedPromiseIfNeeded s) = w_pendingAbortRequest s"
  by (simp_all add: WritableStreamRejectCloseAndClosedPromiseIfNeeded_def Let_def split: option.splits)

lemma UpdateBackpressure_frame [simp]:
  "w_state (WritableStreamUpdateBackpressure s b) = w_state s"
  "w_pendingAbortRequest (WritableStreamUpdateBackpressure s b) = w_pendingAbortRequest s"
  by (simp_all add: WritableStreamUpdateBackpressure_def Let_def split: option.splits)

lemma FinishErroring_pending [simp]:
  "w_pendingAbortRequest (fst (WritableStreamFinishErroring s)) = None"
  by (simp add: WritableStreamFinishErroring_def Let_def w_ErrorSteps_def w_ResetQueue_def
      w_AbortSteps_def newPromise_def WritableStreamDefaultControllerClearAlgorithms_def
      split: option.splits prod.splits completion.splits)

lemma FinishErroring_inv [simp]: "abortInv (fst (WritableStreamFinishErroring s))"
  by (simp add: abortInv_def)

lemma StartErroring_inv [simp]: "abortInv (fst (WritableStreamStartErroring s r))"
  by (simp add: abortInv_def WritableStreamStartErroring_def Let_def split: option.splits)

lemma DealWithRejection_inv [simp]: "abortInv (fst (WritableStreamDealWithRejection s r))"
  by (simp add: WritableStreamDealWithRejection_def)

lemma ControllerError_inv [simp]: "abortInv (fst (WritableStreamDefaultControllerError s r))"
  by (simp add: WritableStreamDefaultControllerError_def)

lemma ErrorIfNeeded_inv [simp]:
  "abortInv s \<Longrightarrow> abortInv (fst (WritableStreamDefaultControllerErrorIfNeeded s r))"
  by (simp add: WritableStreamDefaultControllerErrorIfNeeded_def)

lemma error_inv [simp]:
  "abortInv s \<Longrightarrow> abortInv (fst (WritableStreamDefaultController_error s r))"
  by (simp add: WritableStreamDefaultController_error_def)

lemma ProcessClose_frame [simp]:
  "abortInv s \<Longrightarrow> abortInv (fst (WritableStreamDefaultControllerProcessClose s))"
  by (simp add: abortInv_def WritableStreamDefaultControllerProcessClose_def Let_def newPromise_def
      w_DequeueValue_def WritableStreamMarkCloseRequestInFlight_def
      WritableStreamDefaultControllerClearAlgorithms_def)

lemma ProcessWrite_frame [simp]:
  "abortInv s \<Longrightarrow> abortInv (fst (WritableStreamDefaultControllerProcessWrite s c))"
  by (simp add: abortInv_def WritableStreamDefaultControllerProcessWrite_def Let_def newPromise_def
      WritableStreamMarkFirstWriteRequestInFlight_def split: list.splits)

lemma Advance_inv [simp]:
  "abortInv s \<Longrightarrow> abortInv (fst (WritableStreamDefaultControllerAdvanceQueueIfNeeded s))"
  by (simp add: WritableStreamDefaultControllerAdvanceQueueIfNeeded_def
      split: list.splits QueueRecord.splits)

lemma Abort_inv [simp]: "abortInv s \<Longrightarrow> abortInv (fst (WritableStreamAbort s r))"
  apply (simp add: WritableStreamAbort_def Let_def promiseResolvedWith_def newPromise_def
      split: option.splits prod.splits completion.splits)
  apply (auto simp add: abortInv_def split_def)
  apply (metis StartErroring_inv abortInv_def fst_conv)+
  done

lemma frame_simple [simp]:
  "w_state (WritableStreamFinishInFlightWrite s) = w_state s"
  "w_pendingAbortRequest (WritableStreamFinishInFlightWrite s) = w_pendingAbortRequest s"
  "w_state (w_DequeueValue s) = w_state s"
  "w_pendingAbortRequest (w_DequeueValue s) = w_pendingAbortRequest s"
  "w_state (WritableStreamDefaultControllerClearAlgorithms s) = w_state s"
  "w_pendingAbortRequest (WritableStreamDefaultControllerClearAlgorithms s) = w_pendingAbortRequest s"
  "w_state (fst (rejectedWith s r)) = w_state s"
  "w_pendingAbortRequest (fst (rejectedWith s r)) = w_pendingAbortRequest s"
  "w_state (fst (w_EnqueueValueWithSize s v sz)) = w_state s"
  "w_pendingAbortRequest (fst (w_EnqueueValueWithSize s v sz)) = w_pendingAbortRequest s"
  "w_state (fst (WritableStreamAddWriteRequest s)) = w_state s"
  "w_pendingAbortRequest (fst (WritableStreamAddWriteRequest s)) = w_pendingAbortRequest s"
  "w_state (WritableStreamDefaultWriterRelease s) = w_state s"
  "w_pendingAbortRequest (WritableStreamDefaultWriterRelease s) = w_pendingAbortRequest s"
  "w_state (fst (WritableStreamDefaultWriter_constructor s)) = w_state s"
  "w_pendingAbortRequest (fst (WritableStreamDefaultWriter_constructor s)) = w_pendingAbortRequest s"
  by (simp_all add: WritableStreamFinishInFlightWrite_def w_DequeueValue_def
      WritableStreamDefaultControllerClearAlgorithms_def rejectedWith_def promiseRejectedWith_def
      w_EnqueueValueWithSize_def WritableStreamAddWriteRequest_def newPromise_def
      WritableStreamDefaultWriterRelease_def WritableStreamDefaultWriter_constructor_def Let_def
      split: option.splits prod.splits)

lemma abortInv_frames [simp]:
  "abortInv (WritableStreamFinishInFlightWrite s) = abortInv s"
  "abortInv (w_DequeueValue s) = abortInv s"
  "abortInv (WritableStreamDefaultControllerClearAlgorithms s) = abortInv s"
  "abortInv (fst (rejectedWith s r)) = abortInv s"
  "abortInv (fst (w_EnqueueValueWithSize s v sz)) = abortInv s"
  "abortInv (fst (WritableStreamAddWriteRequest s)) = abortInv s"
  "abortInv (WritableStreamDefaultWriterRelease s) = abortInv s"
  "abortInv (fst (WritableStreamDefaultWriter_constructor s)) = abortInv s"
  "abortInv (WritableStreamUpdateBackpressure s b) = abortInv s"
  "abortInv (withWriter f wr s) = abortInv s"
  "abortInv (WritableStreamRejectCloseAndClosedPromiseIfNeeded s) = abortInv s"
  by (simp_all add: abortInv_def)

lemma FinishInFlightClose_inv [simp]:
  "abortInv s \<Longrightarrow> abortInv (WritableStreamFinishInFlightClose s)"
  by (auto simp add: abortInv_def WritableStreamFinishInFlightClose_def Let_def split: option.splits)

lemma FinishInFlightCloseWithError_inv [simp]:
  "abortInv (fst (WritableStreamFinishInFlightCloseWithError s r))"
  by (simp add: WritableStreamFinishInFlightCloseWithError_def Let_def)

lemma FinishInFlightWriteWithError_inv [simp]:
  "abortInv (fst (WritableStreamFinishInFlightWriteWithError s r))"
  by (simp add: WritableStreamFinishInFlightWriteWithError_def)

lemma ProcessWrite_onFulfilled_inv [simp]:
  "abortInv s \<Longrightarrow> abortInv (fst (ProcessWrite_onFulfilled s))"
  by (simp add: ProcessWrite_onFulfilled_def Let_def)

lemma ProcessWrite_onRejected_inv [simp]: "abortInv (fst (ProcessWrite_onRejected r s))"
  by (simp add: ProcessWrite_onRejected_def)

lemma ControllerClose_inv [simp]:
  "abortInv s \<Longrightarrow> abortInv (fst (WritableStreamDefaultControllerClose s))"
proof -
  assume a: "abortInv s"
  obtain s1 c where e: "w_EnqueueValueWithSize s CloseMarker (Num 0) = (s1, c)"
    by (cases "w_EnqueueValueWithSize s CloseMarker (Num 0)")
  have "abortInv (fst (w_EnqueueValueWithSize s CloseMarker (Num 0)))" using a by simp
  then have "abortInv s1" using e by simp
  then show ?thesis
    by (simp add: WritableStreamDefaultControllerClose_def e split: completion.splits)
qed

lemma fst_rethrow [simp]:
  "fst (case x of (s, c) \<Rightarrow> (case c of Normal u \<Rightarrow> (s, f u) | Throw e \<Rightarrow> (s, g e))) = fst x"
  by (cases x) (simp split: completion.splits)

lemma Close_inv [simp]: "abortInv s \<Longrightarrow> abortInv (fst (WritableStreamClose s))"
proof -
  assume a: "abortInv s"
  have c: "abortInv (s\<lparr>w_heap := h, w_closeRequest := r\<rparr>)" for h r
    using a by (simp add: abortInv_def)
  show ?thesis
    using a
    by (simp add: WritableStreamClose_def Let_def newPromise_def c split: option.splits)
qed

lemma GetChunkSize_inv [simp]:
  "abortInv s \<Longrightarrow> abortInv (fst (WritableStreamDefaultControllerGetChunkSize s chunk))"
  by (simp add: WritableStreamDefaultControllerGetChunkSize_def
        split: option.splits completion.splits)

lemma ControllerWrite_inv [simp]:
  "abortInv s \<Longrightarrow> abortInv (fst (WritableStreamDefaultControllerWrite s chunk sz))"
proof -
  assume a: "abortInv s"
  obtain s1 c where e: "w_EnqueueValueWithSize s (WriteRecord chunk) sz = (s1, c)"
    by (cases "w_EnqueueValueWithSize s (WriteRecord chunk) sz")
  have "abortInv (fst (w_EnqueueValueWithSize s (WriteRecord chunk) sz))" using a by simp
  then have "abortInv s1" using e by simp
  then show ?thesis
    by (simp add: WritableStreamDefaultControllerWrite_def e Let_def split: completion.splits)
qed

lemma WriterWrite_inv [simp]:
  "abortInv s \<Longrightarrow> abortInv (fst (WritableStreamDefaultWriterWrite s chunk))"
proof -
  assume a: "abortInv s"
  obtain s1 c where e: "WritableStreamDefaultControllerGetChunkSize s chunk = (s1, c)"
    by (cases "WritableStreamDefaultControllerGetChunkSize s chunk")
  have "abortInv (fst (WritableStreamDefaultControllerGetChunkSize s chunk))" using a by simp
  then have s1: "abortInv s1" using e by simp
  obtain s2 p where r: "WritableStreamAddWriteRequest s1 = (s2, p)"
    by (cases "WritableStreamAddWriteRequest s1")
  have "abortInv (fst (WritableStreamAddWriteRequest s1))" using s1 by simp
  then have s2: "abortInv s2" using r by simp
  show ?thesis
    using s1 s2 by (simp add: WritableStreamDefaultWriterWrite_def e r Let_def split: completion.splits)
qed

lemma handlers_inv [simp]:
  "abortInv s \<Longrightarrow> abortInv (fst (SetUp_onFulfilled s))"
  "abortInv (fst (SetUp_onRejected r s))"
  "abortInv s \<Longrightarrow> abortInv (FinishErroring_onFulfilled ar s)"
  "abortInv s \<Longrightarrow> abortInv (FinishErroring_onRejected ar r s)"
proof -
  have a: "abortInv s \<Longrightarrow> abortInv (s\<lparr>wc_started := True\<rparr>)" by (simp add: abortInv_def)
  show "abortInv s \<Longrightarrow> abortInv (fst (SetUp_onFulfilled s))"
    using a by (simp add: SetUp_onFulfilled_def)
  show "abortInv (fst (SetUp_onRejected r s))" by (simp add: SetUp_onRejected_def)
  have b: "abortInv s \<Longrightarrow> abortInv (s\<lparr>w_heap := h\<rparr>)" for h by (simp add: abortInv_def)
  show "abortInv s \<Longrightarrow> abortInv (FinishErroring_onFulfilled ar s)"
    using b by (simp add: FinishErroring_onFulfilled_def)
  show "abortInv s \<Longrightarrow> abortInv (FinishErroring_onRejected ar r s)"
    using b by (simp add: FinishErroring_onRejected_def)
qed

lemma runReaction_inv: "abortInv s \<Longrightarrow> abortInv (runReaction reaction out s)"
  by (cases reaction; cases out) simp_all

lemma settle_inv [simp]: "abortInv s \<Longrightarrow> abortInv (settle p out s)"
proof -
  assume a: "abortInv s"
  have "abortInv (s\<lparr>w_heap := h, w_reactions := rs\<rparr>)" for h rs
    using a by (simp add: abortInv_def)
  then show ?thesis
    using a by (simp add: settle_def runReaction_inv split: option.splits)
qed

lemma w_step_inv: "abortInv s \<Longrightarrow> abortInv (w_step e s)"
  by (cases e)
     (simp_all add: WritableStream_abort_def WritableStream_close_def WritableStream_getWriter_def
        Writer_abort_def Writer_close_def Writer_write_def Writer_releaseLock_def
        WritableStreamDefaultWriterAbort_def WritableStreamDefaultWriterClose_def)

lemma Create_inv: "abortInv (CreateWritableStream hwm sz)"
  by (simp add: abortInv_def CreateWritableStream_def SetUpWritableStreamDefaultController_def
      InitializeWritableStream_def Let_def newPromise_def w_ResetQueue_def)

lemma reachable_abortInv: "w_reachable s \<Longrightarrow> abortInv s"
  by (induction rule: w_reachable.induct) (simp_all add: Create_inv w_step_inv)

subsection \<open>The promise of a pending abort request is pending\<close>

lemma heap_length [simp]:
  "length (resolvePromise p v h) = length h"
  "length (rejectPromise p r h) = length h"
  "length (settlePromise p out h) = length h"
  "length (settleRequest req out h) = length h"
  by (cases out; simp add: resolvePromise_def rejectPromise_def settleRequest_def split: option.splits)+

lemma rejectAll_length [simp]: "length (rejectAll ps r h) = length h"
  by (induction ps arbitrary: h) simp_all

lemma heap_nth [simp]:
  "q \<noteq> p \<Longrightarrow> resolvePromise p v h ! q = h ! q"
  "q \<noteq> p \<Longrightarrow> rejectPromise p r h ! q = h ! q"
  "q \<noteq> p \<Longrightarrow> settlePromise p out h ! q = h ! q"
  by (cases out; simp add: resolvePromise_def rejectPromise_def)+

lemma settleRequest_nth [simp]: "q \<notin> set_option req \<Longrightarrow> settleRequest req out h ! q = h ! q"
  by (cases req) (simp_all add: settleRequest_def)

lemma rejectAll_nth [simp]: "q \<notin> set ps \<Longrightarrow> rejectAll ps r h ! q = h ! q"
  by (induction ps arbitrary: h) simp_all

lemma refs_updates [simp]:
  "refs (s\<lparr>w_heap := h\<rparr>) = refs s"
  "refs (s\<lparr>w_calls := cs\<rparr>) = refs s"
  "refs (s\<lparr>w_state := st\<rparr>) = refs s"
  "refs (s\<lparr>w_storedError := e\<rparr>) = refs s"
  "refs (s\<lparr>w_pendingAbortRequest := pa\<rparr>) = refs s"
  "refs (s\<lparr>w_backpressure := b\<rparr>) = refs s"
  "refs (s\<lparr>wc_queue := q\<rparr>) = refs s"
  "refs (s\<lparr>wc_queueTotalSize := t\<rparr>) = refs s"
  "refs (s\<lparr>wc_started := b\<rparr>) = refs s"
  "refs (s\<lparr>wc_strategySizeAlgorithm := sa\<rparr>) = refs s"
  "refs (s\<lparr>wc_strategyHWM := t\<rparr>) = refs s"
  "refs (s\<lparr>wc_writeAlgorithm := b\<rparr>) = refs s"
  "refs (s\<lparr>wc_closeAlgorithm := b\<rparr>) = refs s"
  "refs (s\<lparr>wc_abortAlgorithm := b\<rparr>) = refs s"
  by (simp_all add: refs_def)

lemma heapInv_updates [simp]:
  "heapInv (s\<lparr>w_calls := cs\<rparr>) = heapInv s"
  "heapInv (s\<lparr>w_state := st\<rparr>) = heapInv s"
  "heapInv (s\<lparr>w_storedError := e\<rparr>) = heapInv s"
  "heapInv (s\<lparr>w_backpressure := b\<rparr>) = heapInv s"
  "heapInv (s\<lparr>wc_queue := q\<rparr>) = heapInv s"
  "heapInv (s\<lparr>wc_queueTotalSize := t\<rparr>) = heapInv s"
  "heapInv (s\<lparr>wc_started := b\<rparr>) = heapInv s"
  "heapInv (s\<lparr>wc_strategySizeAlgorithm := sa\<rparr>) = heapInv s"
  "heapInv (s\<lparr>wc_strategyHWM := t\<rparr>) = heapInv s"
  "heapInv (s\<lparr>wc_writeAlgorithm := b\<rparr>) = heapInv s"
  "heapInv (s\<lparr>wc_closeAlgorithm := b\<rparr>) = heapInv s"
  "heapInv (s\<lparr>wc_abortAlgorithm := b\<rparr>) = heapInv s"
  by (simp_all add: heapInv_def split: option.splits)

lemma heapInv_noPending: "heapInv s \<Longrightarrow> heapInv (s\<lparr>w_pendingAbortRequest := None\<rparr>)"
  by (simp add: heapInv_def split: option.splits)

lemma heapInv_settle:
  assumes "heapInv s" and "q \<in> refs s \<or> w_pendingAbortRequest s = None"
  shows "heapInv (s\<lparr>w_heap := resolvePromise q v (w_heap s)\<rparr>)"
    and "heapInv (s\<lparr>w_heap := rejectPromise q r (w_heap s)\<rparr>)"
    and "heapInv (s\<lparr>w_heap := settlePromise q out (w_heap s)\<rparr>)"
proof -
  have n: "w_pendingAbortRequest s = Some a \<Longrightarrow> par_promise a \<noteq> q" for a
    using assms by (auto simp add: heapInv_def)
  show "heapInv (s\<lparr>w_heap := resolvePromise q v (w_heap s)\<rparr>)"
    and "heapInv (s\<lparr>w_heap := rejectPromise q r (w_heap s)\<rparr>)"
    and "heapInv (s\<lparr>w_heap := settlePromise q out (w_heap s)\<rparr>)"
    using assms(1) n by (auto simp add: heapInv_def split: option.splits)
qed

lemma heapInv_fresh:
  assumes "heapInv s"
  shows "heapInv (s\<lparr>w_heap := w_heap s @ [x]\<rparr>)"
  using assms by (auto simp add: heapInv_def nth_append less_Suc_eq split: option.splits)

lemma refs_writer:
  "w_writer s = Some wr \<Longrightarrow> closedPromise wr \<in> refs s"
  "w_writer s = Some wr \<Longrightarrow> readyPromise wr \<in> refs s"
  by (simp_all add: refs_def writerRefs_def)

lemma heapInv_writer_fields:
  assumes "heapInv s" and "w_writer s = Some wr"
  shows "heapInv (s\<lparr>w_writer := Some (wr\<lparr>closedPromiseState := cs\<rparr>)\<rparr>)"
    and "heapInv (s\<lparr>w_writer := Some (wr\<lparr>readyPromiseState := rs\<rparr>)\<rparr>)"
  using assms by (auto simp add: heapInv_def refs_def writerRefs_def split: option.splits)

lemma heapInv_writer_fresh:
  assumes "heapInv s" and "w_writer s = Some wr"
  shows "heapInv (s\<lparr>w_writer := Some (wr\<lparr>closedPromise := length (w_heap s), closedPromiseState := cs\<rparr>),
                     w_heap := w_heap s @ [x]\<rparr>)"
    and "heapInv (s\<lparr>w_writer := Some (wr\<lparr>readyPromise := length (w_heap s), readyPromiseState := rs\<rparr>),
                     w_heap := w_heap s @ [x]\<rparr>)"
  using assms
  by (auto simp add: heapInv_def refs_def writerRefs_def nth_append less_Suc_eq split: option.splits)

lemma withWriter_heapInv:
  assumes "heapInv s" and "w_writer s = Some wr"
  shows "heapInv (withWriter defaultWriterReadyPromiseReset wr s)"
    and "heapInv (withWriter defaultWriterReadyPromiseResolve wr s)"
    and "heapInv (withWriter defaultWriterClosedPromiseResolve wr s)"
    and "heapInv (withWriter (\<lambda>x. defaultWriterClosedPromiseReject x e) wr s)"
    and "heapInv (withWriter (\<lambda>x. WritableStreamDefaultWriterEnsureReadyPromiseRejected x e) wr s)"
    and "heapInv (withWriter (\<lambda>x. WritableStreamDefaultWriterEnsureClosedPromiseRejected x e) wr s)"
  using assms
  by (auto simp add: writer_helper_defs promise_defs
         heapInv_def refs_def writerRefs_def nth_append less_Suc_eq nth_list_update
      split: option.splits prod.splits)

lemma heapInv_dropRefs:
  assumes "heapInv s"
  shows "heapInv (s\<lparr>w_closeRequest := None\<rparr>)"
    and "heapInv (s\<lparr>w_inFlightCloseRequest := None\<rparr>)"
    and "heapInv (s\<lparr>w_inFlightWriteRequest := None\<rparr>)"
    and "heapInv (s\<lparr>w_writeRequests := []\<rparr>)"
    and "heapInv (s\<lparr>w_writer := None\<rparr>)"
    and "heapInv (s\<lparr>w_reactions := filter P (w_reactions s)\<rparr>)"
  using assms by (auto simp add: heapInv_def refs_def writerRefs_def split: option.splits)

lemma refs_slots:
  "w_closeRequest s = Some p \<Longrightarrow> p \<in> refs s"
  "w_inFlightCloseRequest s = Some p \<Longrightarrow> p \<in> refs s"
  "w_inFlightWriteRequest s = Some p \<Longrightarrow> p \<in> refs s"
  "p \<in> set (w_writeRequests s) \<Longrightarrow> p \<in> refs s"
  by (simp_all add: refs_def)

lemma Reject_heapInv:
  assumes "heapInv s"
  shows "heapInv (WritableStreamRejectCloseAndClosedPromiseIfNeeded s)"
proof -
  define s1 where "s1 = (case w_closeRequest s of
                  Some p \<Rightarrow> s\<lparr>w_heap := rejectPromise p (w_storedError s) (w_heap s),
                                w_closeRequest := None\<rparr>
                | None \<Rightarrow> s)"
  have 1: "heapInv s1"
  proof (cases "w_closeRequest s")
    case None then show ?thesis using assms by (simp add: s1_def)
  next
    case (Some p)
    have "heapInv (s\<lparr>w_heap := rejectPromise p (w_storedError s) (w_heap s)\<rparr>)"
      using heapInv_settle(2) [OF assms] refs_slots(1) [OF Some] by simp
    from heapInv_dropRefs(1) [OF this] show ?thesis by (simp add: s1_def Some)
  qed
  show ?thesis
    unfolding WritableStreamRejectCloseAndClosedPromiseIfNeeded_def Let_def s1_def [symmetric]
    using 1 by (auto split: option.splits intro: withWriter_heapInv)
qed

lemma UpdateBackpressure_heapInv:
  "heapInv s \<Longrightarrow> heapInv (WritableStreamUpdateBackpressure s b)"
  by (auto simp add: WritableStreamUpdateBackpressure_def Let_def split: option.splits
      intro: withWriter_heapInv)

lemma rejectAll_heapInv:
  assumes "heapInv s" and "set ps \<subseteq> refs s"
  shows "heapInv (s\<lparr>w_heap := rejectAll ps r (w_heap s)\<rparr>)"
  using assms
proof (induction ps arbitrary: s)
  case Nil then show ?case by simp
next
  case (Cons p ps)
  have "heapInv (s\<lparr>w_heap := rejectPromise p r (w_heap s)\<rparr>)"
    using heapInv_settle(2) [OF Cons.prems(1)] Cons.prems(2) by simp
  from Cons.IH [OF this] Cons.prems(2) show ?case by simp
qed

lemma AbortSteps_heapInv:
  assumes "heapInv s"
  shows "heapInv (fst (w_AbortSteps s r))"
    and "snd (w_AbortSteps s r) = Normal p \<Longrightarrow>
           p < length (w_heap (fst (w_AbortSteps s r))) \<and>
           length (w_heap s) \<le> length (w_heap (fst (w_AbortSteps s r))) \<and>
           refs (fst (w_AbortSteps s r)) = refs s \<and>
           w_pendingAbortRequest (fst (w_AbortSteps s r)) = w_pendingAbortRequest s"
  using assms heapInv_fresh [OF assms, of Pending]
  by (auto simp add: w_AbortSteps_def newPromise_def WritableStreamDefaultControllerClearAlgorithms_def
      refs_def)

lemma heapInv_addReaction:
  assumes "heapInv s" and "w_pendingAbortRequest s = None"
      and "\<forall>q\<in>reactionRefs pr. q < length (w_heap s)"
  shows "heapInv (s\<lparr>w_reactions := w_reactions s @ [pr]\<rparr>)"
  using assms by (auto simp add: heapInv_def refs_def)

lemma FinishErroring_heapInv:
  assumes "heapInv s"
  shows "heapInv (fst (WritableStreamFinishErroring s))"
proof -
  define s2 where "s2 = (w_ErrorSteps (s\<lparr>w_state := Errored\<rparr>))
      \<lparr>w_heap := rejectAll (w_writeRequests s) (w_storedError s) (w_heap s), w_writeRequests := []\<rparr>"
  have "heapInv (s\<lparr>w_heap := rejectAll (w_writeRequests s) (w_storedError s) (w_heap s)\<rparr>)"
    by (rule rejectAll_heapInv [OF assms]) (auto simp add: refs_def)
  from heapInv_dropRefs(4) [OF this]
  have 2: "heapInv s2" by (simp add: s2_def w_ErrorSteps_def w_ResetQueue_def heapInv_def refs_def)
  have e: "WritableStreamFinishErroring s =
     (case w_pendingAbortRequest s2 of
           None \<Rightarrow> (WritableStreamRejectCloseAndClosedPromiseIfNeeded s2, Normal ())
         | Some abortRequest \<Rightarrow>
             (let s3 = s2\<lparr>w_pendingAbortRequest := None\<rparr>
              in if par_wasAlreadyErroring abortRequest
                 then (WritableStreamRejectCloseAndClosedPromiseIfNeeded
                         (s3\<lparr>w_heap := rejectPromise (par_promise abortRequest) (w_storedError s) (w_heap s3)\<rparr>),
                       Normal ())
                 else (case w_AbortSteps s3 (par_reason abortRequest) of
                         (s4, Throw e) \<Rightarrow> (s4, Throw e)
                       | (s4, Normal promise) \<Rightarrow>
                           (s4\<lparr>w_reactions := w_reactions s4 @ [(promise, OnSinkAbort abortRequest)]\<rparr>,
                            Normal ()))))"
    by (cases "w_pendingAbortRequest s")
       (simp_all add: WritableStreamFinishErroring_def Let_def s2_def w_ErrorSteps_def w_ResetQueue_def)
  show ?thesis
  proof (cases "w_pendingAbortRequest s2")
    case None
    then show ?thesis using Reject_heapInv [OF 2] by (simp add: e)
  next
    case (Some a)
    let ?s3 = "s2\<lparr>w_pendingAbortRequest := None\<rparr>"
    have 3: "heapInv ?s3" by (rule heapInv_noPending [OF 2])
    have b: "par_promise a < length (w_heap s2)" using 2 Some by (simp add: heapInv_def)
    show ?thesis
    proof (cases "par_wasAlreadyErroring a")
      case True
      have "heapInv (?s3\<lparr>w_heap := rejectPromise (par_promise a) (w_storedError s) (w_heap ?s3)\<rparr>)"
        by (rule heapInv_settle(2) [OF 3]) simp
      from Reject_heapInv [OF this] show ?thesis using True Some by (simp add: e)
    next
      case False
      obtain s4 c where a4: "w_AbortSteps ?s3 (par_reason a) = (s4, c)"
        by (cases "w_AbortSteps ?s3 (par_reason a)")
      have 4: "heapInv s4" using AbortSteps_heapInv(1) [OF 3, of "par_reason a"] a4 by simp
      show ?thesis
      proof (cases c)
        case (Throw x)
        then show ?thesis using 4 False Some a4 by (simp add: e)
      next
        case (Normal p)
        have f: "p < length (w_heap s4)" "length (w_heap ?s3) \<le> length (w_heap s4)"
          "w_pendingAbortRequest s4 = None"
          using AbortSteps_heapInv(2) [OF 3, of "par_reason a" p] a4 Normal by simp_all
        have "heapInv (s4\<lparr>w_reactions := w_reactions s4 @ [(p, OnSinkAbort a)]\<rparr>)"
          by (rule heapInv_addReaction [OF 4 f(3)]) (use f b in \<open>auto simp add: reactionRefs_def\<close>)
        then show ?thesis using Normal False Some a4 by (simp add: e)
      qed
    qed
  qed
qed

lemma heapInv_settle_other:
  assumes "heapInv s" and "\<forall>a. w_pendingAbortRequest s = Some a \<longrightarrow> par_promise a \<noteq> q"
  shows "heapInv (s\<lparr>w_heap := resolvePromise q v (w_heap s)\<rparr>)"
    and "heapInv (s\<lparr>w_heap := rejectPromise q r (w_heap s)\<rparr>)"
    and "heapInv (s\<lparr>w_heap := settlePromise q out (w_heap s)\<rparr>)"
  using assms by (auto simp add: heapInv_def)

lemma heapInv_settleRequest:
  assumes "heapInv s" and "req = None \<or> (\<exists>p. req = Some p \<and> p \<in> refs s)"
  shows "heapInv (s\<lparr>w_heap := settleRequest req out (w_heap s)\<rparr>)"
proof (cases req)
  case None
  have "s\<lparr>w_heap := w_heap s\<rparr> = s" by simp
  then show ?thesis using assms(1) None by (simp add: settleRequest_def)
next
  case (Some p)
  then show ?thesis using heapInv_settle(3) [OF assms(1), of p out] assms(2)
    by (simp add: settleRequest_def)
qed

lemma StartErroring_heapInv:
  assumes "heapInv s"
  shows "heapInv (fst (WritableStreamStartErroring s r))"
proof -
  define s2 where "s2 = (case w_writer s of
                  Some wr \<Rightarrow>
                    withWriter (\<lambda>x. WritableStreamDefaultWriterEnsureReadyPromiseRejected x r) wr
                      (s\<lparr>w_state := Erroring, w_storedError := r\<rparr>)
                | None \<Rightarrow> s\<lparr>w_state := Erroring, w_storedError := r\<rparr>)"
  have 1: "heapInv (s\<lparr>w_state := Erroring, w_storedError := r\<rparr>)"
    using assms by (simp add: heapInv_def refs_def)
  have 2: "heapInv s2"
    unfolding s2_def using 1 by (auto split: option.splits intro: withWriter_heapInv)
  have e: "WritableStreamStartErroring s r =
      (if \<not> WritableStreamHasOperationMarkedInFlight s2 \<and> wc_started s2
         then WritableStreamFinishErroring s2
         else (s2, Normal ()))"
    by (cases "w_writer s") (simp_all add: WritableStreamStartErroring_def Let_def s2_def)
  show ?thesis using 2 FinishErroring_heapInv [OF 2] by (simp add: e)
qed

lemma DealWithRejection_heapInv:
  "heapInv s \<Longrightarrow> heapInv (fst (WritableStreamDealWithRejection s r))"
  by (simp add: WritableStreamDealWithRejection_def StartErroring_heapInv FinishErroring_heapInv)

lemma ClearAlgorithms_heapInv [simp]:
  "heapInv (WritableStreamDefaultControllerClearAlgorithms s) = heapInv s"
  by (simp add: WritableStreamDefaultControllerClearAlgorithms_def heapInv_def refs_def)

lemma ControllerError_heapInv:
  "heapInv s \<Longrightarrow> heapInv (fst (WritableStreamDefaultControllerError s r))"
  by (simp add: WritableStreamDefaultControllerError_def StartErroring_heapInv)

lemma ErrorIfNeeded_heapInv:
  "heapInv s \<Longrightarrow> heapInv (fst (WritableStreamDefaultControllerErrorIfNeeded s r))"
  by (simp add: WritableStreamDefaultControllerErrorIfNeeded_def ControllerError_heapInv)

lemma error_heapInv:
  "heapInv s \<Longrightarrow> heapInv (fst (WritableStreamDefaultController_error s r))"
  by (simp add: WritableStreamDefaultController_error_def ControllerError_heapInv)

lemma heapInv_newAbort:
  assumes "heapInv s" and "w_pendingAbortRequest s = None"
  shows "heapInv (s\<lparr>w_heap := w_heap s @ [Pending],
                     w_pendingAbortRequest :=
                       Some \<lparr>par_promise = length (w_heap s), par_reason = r,
                             par_wasAlreadyErroring = b\<rparr>\<rparr>)"
  using assms by (auto simp add: heapInv_def nth_append less_Suc_eq)

lemma Abort_heapInv:
  assumes "heapInv s"
  shows "heapInv (fst (WritableStreamAbort s r))"
proof (cases "w_state s = Closed \<or> w_state s = Errored")
  case True
  then show ?thesis using heapInv_fresh [OF assms, of "Fulfilled Undefined"]
    by (simp add: WritableStreamAbort_def promiseResolvedWith_def)
next
  case False
  show ?thesis
  proof (cases "w_pendingAbortRequest s")
    case (Some a)
    then show ?thesis using False assms by (simp add: WritableStreamAbort_def)
  next
    case None
    note n = heapInv_newAbort [OF assms None]
    show ?thesis using False None n StartErroring_heapInv [OF n]
      by (simp add: WritableStreamAbort_def Let_def newPromise_def split: prod.splits completion.splits)
  qed
qed

lemma FinishInFlightWrite_heapInv:
  assumes "heapInv s"
  shows "heapInv (WritableStreamFinishInFlightWrite s)"
proof -
  have "heapInv (s\<lparr>w_heap := settleRequest (w_inFlightWriteRequest s) (Fulfil Undefined) (w_heap s)\<rparr>)"
    by (rule heapInv_settleRequest [OF assms]) (auto simp add: refs_def)
  from heapInv_dropRefs(3) [OF this] show ?thesis
    by (simp add: WritableStreamFinishInFlightWrite_def)
qed

lemma FinishInFlightWriteWithError_heapInv:
  assumes "heapInv s"
  shows "heapInv (fst (WritableStreamFinishInFlightWriteWithError s r))"
proof -
  have "heapInv (s\<lparr>w_heap := settleRequest (w_inFlightWriteRequest s) (Reject r) (w_heap s)\<rparr>)"
    by (rule heapInv_settleRequest [OF assms]) (auto simp add: refs_def)
  from DealWithRejection_heapInv [OF heapInv_dropRefs(3) [OF this]] show ?thesis
    by (simp add: WritableStreamFinishInFlightWriteWithError_def)
qed

lemma heapInv_closeSettled:
  assumes "heapInv s"
  shows "heapInv (s\<lparr>w_heap := settleRequest (w_inFlightCloseRequest s) out (w_heap s),
                     w_inFlightCloseRequest := None\<rparr>)"
proof -
  have "heapInv (s\<lparr>w_heap := settleRequest (w_inFlightCloseRequest s) out (w_heap s)\<rparr>)"
    by (rule heapInv_settleRequest [OF assms]) (auto simp add: refs_def)
  from heapInv_dropRefs(2) [OF this] show ?thesis by simp
qed

lemma heapInv_abortSettled:
  assumes "heapInv s"
  shows "heapInv (s\<lparr>w_heap := h, w_pendingAbortRequest := None\<rparr>) = 
         (\<forall>q\<in>refs s. q < length h)"
  by (simp add: heapInv_def)

lemma FinishInFlightClose_heapInv:
  assumes "heapInv s"
  shows "heapInv (WritableStreamFinishInFlightClose s)"
proof -
  define s1 where "s1 = s\<lparr>w_heap := settleRequest (w_inFlightCloseRequest s) (Fulfil Undefined) (w_heap s),
                 w_inFlightCloseRequest := None\<rparr>"
  have 1: "heapInv s1" unfolding s1_def by (rule heapInv_closeSettled [OF assms])
  define s2 where "s2 = (if w_state s1 = Erroring
                then (let s1' = s1\<lparr>w_storedError := Undefined\<rparr>
                      in case w_pendingAbortRequest s1' of
                           Some abortRequest \<Rightarrow>
                             s1'\<lparr>w_heap := resolvePromise (par_promise abortRequest) Undefined (w_heap s1'),
                                 w_pendingAbortRequest := None\<rparr>
                         | None \<Rightarrow> s1')
                else s1)"
  have 2: "heapInv s2"
    using 1 unfolding s2_def by (auto simp add: heapInv_def Let_def split: option.splits)
  have 3: "heapInv (s2\<lparr>w_state := Closed\<rparr>)" using 2 by simp
  show ?thesis
    unfolding WritableStreamFinishInFlightClose_def Let_def s1_def [symmetric]
    unfolding s2_def [unfolded Let_def, symmetric]
    using 3 by (auto split: option.splits intro: withWriter_heapInv)
qed

lemma FinishInFlightCloseWithError_heapInv:
  assumes "heapInv s"
  shows "heapInv (fst (WritableStreamFinishInFlightCloseWithError s r))"
proof -
  define s1 where "s1 = s\<lparr>w_heap := settleRequest (w_inFlightCloseRequest s) (Reject r) (w_heap s),
                 w_inFlightCloseRequest := None\<rparr>"
  have 1: "heapInv s1" unfolding s1_def by (rule heapInv_closeSettled [OF assms])
  define s2 where "s2 = (case w_pendingAbortRequest s1 of
                  Some abortRequest \<Rightarrow>
                    s1\<lparr>w_heap := rejectPromise (par_promise abortRequest) r (w_heap s1),
                       w_pendingAbortRequest := None\<rparr>
                | None \<Rightarrow> s1)"
  have 2: "heapInv s2"
    using 1 unfolding s2_def by (auto simp add: heapInv_def split: option.splits)
  show ?thesis
    unfolding WritableStreamFinishInFlightCloseWithError_def Let_def s1_def [symmetric]
    unfolding s2_def [symmetric]
    by (rule DealWithRejection_heapInv [OF 2])
qed

lemma Mark_heapInv:
  "heapInv s \<Longrightarrow> heapInv (WritableStreamMarkCloseRequestInFlight s)"
  "heapInv s \<Longrightarrow> heapInv (WritableStreamMarkFirstWriteRequestInFlight s)"
  "heapInv s \<Longrightarrow> heapInv (w_DequeueValue s)"
  by (auto simp add: heapInv_def refs_def WritableStreamMarkCloseRequestInFlight_def
      WritableStreamMarkFirstWriteRequestInFlight_def w_DequeueValue_def split: list.splits)

lemma heapInv_newReaction:
  assumes "heapInv s" and "reactionRefs (length (w_heap s), r) = {length (w_heap s)}"
  shows "heapInv (s\<lparr>w_heap := w_heap s @ [Pending],
                     w_reactions := w_reactions s @ [(length (w_heap s), r)]\<rparr>)"
  using assms by (auto simp add: heapInv_def refs_def nth_append less_Suc_eq)

lemma ProcessClose_heapInv:
  assumes "heapInv s"
  shows "heapInv (fst (WritableStreamDefaultControllerProcessClose s))"
proof -
  define s1 where "s1 = w_DequeueValue (WritableStreamMarkCloseRequestInFlight s)"
  have 1: "heapInv s1" unfolding s1_def using assms by (simp add: Mark_heapInv)
  have r: "reactionRefs (length (w_heap s1), OnSinkClose) = {length (w_heap s1)}"
    by (simp add: reactionRefs_def)
  show ?thesis
    unfolding WritableStreamDefaultControllerProcessClose_def Let_def s1_def [symmetric]
    using 1 heapInv_newReaction [OF 1 r]
    by (simp add: newPromise_def WritableStreamDefaultControllerClearAlgorithms_def heapInv_def refs_def)
qed

lemma ProcessWrite_heapInv:
  assumes "heapInv s"
  shows "heapInv (fst (WritableStreamDefaultControllerProcessWrite s c))"
proof -
  define s1 where "s1 = WritableStreamMarkFirstWriteRequestInFlight s"
  have 1: "heapInv s1" unfolding s1_def using assms by (simp add: Mark_heapInv)
  have r: "reactionRefs (length (w_heap s1), OnSinkWrite) = {length (w_heap s1)}"
    by (simp add: reactionRefs_def)
  show ?thesis
    unfolding WritableStreamDefaultControllerProcessWrite_def Let_def s1_def [symmetric]
    using 1 heapInv_newReaction [OF 1 r]
    by (simp add: newPromise_def heapInv_def refs_def)
qed

lemma Advance_heapInv:
  "heapInv s \<Longrightarrow> heapInv (fst (WritableStreamDefaultControllerAdvanceQueueIfNeeded s))"
  by (simp add: WritableStreamDefaultControllerAdvanceQueueIfNeeded_def FinishErroring_heapInv
      ProcessClose_heapInv ProcessWrite_heapInv split: list.splits QueueRecord.splits)

lemma ProcessWrite_onFulfilled_heapInv:
  assumes "heapInv s"
  shows "heapInv (fst (ProcessWrite_onFulfilled s))"
proof -
  have 2: "heapInv (w_DequeueValue (WritableStreamFinishInFlightWrite s))"
    by (rule Mark_heapInv(3) [OF FinishInFlightWrite_heapInv [OF assms]])
  show ?thesis
    using 2 by (simp add: ProcessWrite_onFulfilled_def Let_def Advance_heapInv UpdateBackpressure_heapInv)
qed

lemma ProcessWrite_onRejected_heapInv:
  "heapInv s \<Longrightarrow> heapInv (fst (ProcessWrite_onRejected r s))"
  by (simp add: ProcessWrite_onRejected_def FinishInFlightWriteWithError_heapInv)

lemma Enqueue_heapInv [simp]: "heapInv (fst (w_EnqueueValueWithSize s v sz)) = heapInv s"
  by (simp add: w_EnqueueValueWithSize_def heapInv_def refs_def)

lemma ControllerClose_heapInv:
  assumes "heapInv s"
  shows "heapInv (fst (WritableStreamDefaultControllerClose s))"
proof -
  obtain s1 c where e: "w_EnqueueValueWithSize s CloseMarker (Num 0) = (s1, c)"
    by (cases "w_EnqueueValueWithSize s CloseMarker (Num 0)")
  have "heapInv (fst (w_EnqueueValueWithSize s CloseMarker (Num 0)))" using assms by simp
  then have "heapInv s1" using e by simp
  then show ?thesis
    by (simp add: WritableStreamDefaultControllerClose_def e Advance_heapInv split: completion.splits)
qed

lemma rejectedWith_heapInv: "heapInv s \<Longrightarrow> heapInv (fst (rejectedWith s r))"
  by (simp add: rejectedWith_def promiseRejectedWith_def heapInv_fresh)

lemma heapInv_newClose:
  assumes "heapInv s"
  shows "heapInv (s\<lparr>w_heap := w_heap s @ [Pending], w_closeRequest := Some (length (w_heap s))\<rparr>)"
  using assms by (auto simp add: heapInv_def refs_def nth_append less_Suc_eq)

lemma Close_heapInv:
  assumes "heapInv s"
  shows "heapInv (fst (WritableStreamClose s))"
proof (cases "w_state s = Closed \<or> w_state s = Errored")
  case True
  then show ?thesis using rejectedWith_heapInv [OF assms] by (auto simp add: WritableStreamClose_def)
next
  case False
  define s1 where "s1 = s\<lparr>w_heap := w_heap s @ [Pending], w_closeRequest := Some (length (w_heap s))\<rparr>"
  have 1: "heapInv s1" unfolding s1_def by (rule heapInv_newClose [OF assms])
  define s2 where "s2 = (case w_writer s1 of
                              Some wr \<Rightarrow>
                                if w_backpressure s1 \<and> w_state s = Writable
                                then withWriter defaultWriterReadyPromiseResolve wr s1
                                else s1
                            | None \<Rightarrow> s1)"
  have 2: "heapInv s2"
    unfolding s2_def using 1 by (auto split: option.splits intro: withWriter_heapInv)
  have e: "WritableStreamClose s =
      (case WritableStreamDefaultControllerClose s2 of
                       (s3, Throw e) \<Rightarrow> (s3, Throw e)
                     | (s3, Normal u) \<Rightarrow> (s3, Normal (length (w_heap s))))"
    using False
    by (cases "w_writer s") (simp_all add: WritableStreamClose_def Let_def newPromise_def s2_def s1_def)
  show ?thesis using ControllerClose_heapInv [OF 2] by (simp add: e)
qed

lemma AddWriteRequest_heapInv:
  "heapInv s \<Longrightarrow> heapInv (fst (WritableStreamAddWriteRequest s))"
  by (auto simp add: WritableStreamAddWriteRequest_def newPromise_def heapInv_def refs_def
      nth_append less_Suc_eq)

lemma GetChunkSize_heapInv:
  "heapInv s \<Longrightarrow> heapInv (fst (WritableStreamDefaultControllerGetChunkSize s chunk))"
  by (simp add: WritableStreamDefaultControllerGetChunkSize_def ErrorIfNeeded_heapInv
        split: option.splits completion.splits)

lemma ControllerWrite_heapInv:
  assumes "heapInv s"
  shows "heapInv (fst (WritableStreamDefaultControllerWrite s chunk sz))"
proof -
  obtain s1 c where e: "w_EnqueueValueWithSize s (WriteRecord chunk) sz = (s1, c)"
    by (cases "w_EnqueueValueWithSize s (WriteRecord chunk) sz")
  have "heapInv (fst (w_EnqueueValueWithSize s (WriteRecord chunk) sz))" using assms by simp
  then have "heapInv s1" using e by simp
  then show ?thesis
    by (simp add: WritableStreamDefaultControllerWrite_def e Let_def Advance_heapInv
        ErrorIfNeeded_heapInv UpdateBackpressure_heapInv split: completion.splits)
qed

lemma WriterWrite_heapInv:
  assumes "heapInv s"
  shows "heapInv (fst (WritableStreamDefaultWriterWrite s chunk))"
proof -
  obtain s1 c where e: "WritableStreamDefaultControllerGetChunkSize s chunk = (s1, c)"
    by (cases "WritableStreamDefaultControllerGetChunkSize s chunk")
  have s1: "heapInv s1" using GetChunkSize_heapInv [OF assms, of chunk] e by simp
  obtain s2 p where r: "WritableStreamAddWriteRequest s1 = (s2, p)"
    by (cases "WritableStreamAddWriteRequest s1")
  have s2: "heapInv s2" using AddWriteRequest_heapInv [OF s1] r by simp
  show ?thesis
    using s1 s2
    by (simp add: WritableStreamDefaultWriterWrite_def e r Let_def rejectedWith_heapInv
        ControllerWrite_heapInv split: completion.splits)
qed

lemma withWriter_writer:
  "\<exists>wr'. w_writer (withWriter f wr s) = Some wr'"
  by (simp add: withWriter_def split: prod.splits)

lemma Release_heapInv:
  assumes "heapInv s"
  shows "heapInv (WritableStreamDefaultWriterRelease s)"
proof (cases "w_writer s")
  case None
  then show ?thesis using assms by (simp add: WritableStreamDefaultWriterRelease_def)
next
  case (Some wr)
  define s1 where
    "s1 = withWriter (\<lambda>x. WritableStreamDefaultWriterEnsureReadyPromiseRejected x releasedError) wr s"
  have 1: "heapInv s1" unfolding s1_def by (rule withWriter_heapInv(5) [OF assms Some])
  obtain wr1 where w1: "w_writer s1 = Some wr1" using withWriter_writer s1_def by blast
  define s2 where
    "s2 = withWriter (\<lambda>x. WritableStreamDefaultWriterEnsureClosedPromiseRejected x releasedError) wr1 s1"
  have 2: "heapInv s2" unfolding s2_def by (rule withWriter_heapInv(6) [OF 1 w1])
  have "WritableStreamDefaultWriterRelease s = s2\<lparr>w_writer := None\<rparr>"
    using w1 Some
    by (auto simp add: WritableStreamDefaultWriterRelease_def s2_def s1_def withWriter_def split: prod.splits)
  then show ?thesis using heapInv_dropRefs(5) [OF 2] by simp
qed

lemma heapInv_newWriter:
  assumes "heapInv s" and "w_writer s = None"
  shows "heapInv (s\<lparr>w_writer := Some \<lparr>closedPromise = Suc (length (w_heap s)), closedPromiseState = cs,
                                       readyPromise = length (w_heap s), readyPromiseState = rs\<rparr>,
                     w_heap := w_heap s @ [x, y]\<rparr>)"
  using assms by (auto simp add: heapInv_def refs_def writerRefs_def nth_append less_Suc_eq)

lemma constructor_heapInv:
  assumes "heapInv s"
  shows "heapInv (fst (WritableStreamDefaultWriter_constructor s))"
proof (cases "w_writer s")
  case (Some wr)
  then show ?thesis using assms
    by (simp add: WritableStreamDefaultWriter_constructor_def IsWritableStreamLocked_def)
next
  case None
  note n = heapInv_newWriter [OF assms None]
  show ?thesis
    using None n
    by (simp add: WritableStreamDefaultWriter_constructor_def IsWritableStreamLocked_def Let_def
        writer_helper_defs promise_defs nth_append list_update_append)
qed

lemma handlers_heapInv:
  "heapInv s \<Longrightarrow> heapInv (fst (SetUp_onFulfilled s))"
  "heapInv s \<Longrightarrow> heapInv (fst (SetUp_onRejected r s))"
proof -
  have a: "heapInv s \<Longrightarrow> heapInv (s\<lparr>wc_started := True\<rparr>)" by simp
  show "heapInv s \<Longrightarrow> heapInv (fst (SetUp_onFulfilled s))"
    using a by (simp add: SetUp_onFulfilled_def Advance_heapInv)
  show "heapInv s \<Longrightarrow> heapInv (fst (SetUp_onRejected r s))"
    using a by (simp add: SetUp_onRejected_def DealWithRejection_heapInv)
qed

lemma abortHandlers_heapInv:
  assumes "heapInv s"
      and "\<forall>b. w_pendingAbortRequest s = Some b \<longrightarrow> par_promise b \<noteq> par_promise a"
  shows "heapInv (FinishErroring_onFulfilled a s)"
    and "heapInv (FinishErroring_onRejected a r s)"
  using heapInv_settle_other(1,2) [OF assms]
  by (simp_all add: FinishErroring_onFulfilled_def FinishErroring_onRejected_def Reject_heapInv)

lemma runReaction_heapInv:
  assumes "heapInv s"
      and "\<forall>a b. reaction = OnSinkAbort a \<and> w_pendingAbortRequest s = Some b
             \<longrightarrow> par_promise b \<noteq> par_promise a"
  shows "heapInv (runReaction reaction out s)"
proof (cases reaction)
  case (OnSinkAbort a)
  have n: "\<forall>b. w_pendingAbortRequest s = Some b \<longrightarrow> par_promise b \<noteq> par_promise a"
    using assms(2) OnSinkAbort by simp
  show ?thesis using abortHandlers_heapInv [OF assms(1) n] OnSinkAbort by (cases out) simp_all
qed (cases out; simp add: assms(1) handlers_heapInv ProcessWrite_onFulfilled_heapInv
       ProcessWrite_onRejected_heapInv FinishInFlightClose_heapInv
       FinishInFlightCloseWithError_heapInv)+

lemma settle_heapInv:
  assumes "heapInv s"
  shows "heapInv (settle p out s)"
proof (cases "map_of (w_reactions s) p")
  case None
  then show ?thesis using assms by (simp add: settle_def)
next
  case (Some reaction)
  have m: "(p, reaction) \<in> set (w_reactions s)" by (rule map_of_SomeD [OF Some])
  have r: "reactionRefs (p, reaction) \<subseteq> refs s" using m by (auto simp add: refs_def)
  have p: "p \<in> refs s" using r by (auto simp add: reactionRefs_def)
  define s' where "s' = s\<lparr>w_heap := settlePromise p out (w_heap s),
               w_reactions := filter (\<lambda>pr. fst pr \<noteq> p) (w_reactions s)\<rparr>"
  have "heapInv (s\<lparr>w_heap := settlePromise p out (w_heap s)\<rparr>)"
    by (rule heapInv_settle(3) [OF assms]) (simp add: p)
  from heapInv_dropRefs(6) [OF this, of "\<lambda>pr. fst pr \<noteq> p"]
  have 1: "heapInv s'" by (simp add: s'_def)
  have n: "\<forall>a b. reaction = OnSinkAbort a \<and> w_pendingAbortRequest s' = Some b
             \<longrightarrow> par_promise b \<noteq> par_promise a"
  proof (intro allI impI)
    fix a b assume h: "reaction = OnSinkAbort a \<and> w_pendingAbortRequest s' = Some b"
    then have "par_promise a \<in> refs s" using r by (auto simp add: reactionRefs_def)
    moreover have "par_promise b \<notin> refs s" using assms h by (simp add: heapInv_def s'_def)
    ultimately show "par_promise b \<noteq> par_promise a" by auto
  qed
  show ?thesis using runReaction_heapInv [OF 1 n, of out] Some by (simp add: settle_def s'_def)
qed

lemma w_step_heapInv: "heapInv s \<Longrightarrow> heapInv (w_step e s)"
  by (cases e)
     (simp_all add: WritableStream_abort_def WritableStream_close_def WritableStream_getWriter_def
        Writer_abort_def Writer_close_def Writer_write_def Writer_releaseLock_def
        WritableStreamDefaultWriterAbort_def WritableStreamDefaultWriterClose_def
        rejectedWith_heapInv Abort_heapInv Close_heapInv constructor_heapInv WriterWrite_heapInv
        Release_heapInv error_heapInv settle_heapInv)

lemma Create_heapInv: "heapInv (CreateWritableStream hwm sz)"
  by (simp add: heapInv_def refs_def writerRefs_def reactionRefs_def CreateWritableStream_def
      SetUpWritableStreamDefaultController_def
      InitializeWritableStream_def Let_def newPromise_def w_ResetQueue_def
      WritableStreamUpdateBackpressure_def)

lemma reachable_heapInv: "w_reachable s \<Longrightarrow> heapInv s"
  by (induction rule: w_reachable.induct) (simp_all add: Create_heapInv w_step_heapInv)

lemma pendingAbort_pending:
  assumes "w_reachable s" and "w_pendingAbortRequest s = Some abortRequest"
  shows "lookupPromise (w_heap s) (par_promise abortRequest) = Some Pending"
    and "w_inFlightCloseRequest s \<noteq> Some (par_promise abortRequest)"
  using reachable_heapInv [OF assms(1)] assms(2)
  by (auto simp add: heapInv_def lookupPromise_def refs_def)

subsection \<open>Properties kept by every event outside the writable state\<close>

lemma view_updates [simp]:
  "view (s\<lparr>w_heap := h\<rparr>) = view s"
  "view (s\<lparr>w_reactions := rs\<rparr>) = view s"
  "view (s\<lparr>w_storedError := e\<rparr>) = view s"
  "view (s\<lparr>w_writer := wr\<rparr>) = view s"
  "view (s\<lparr>w_writeRequests := ws\<rparr>) = view s"
  "view (s\<lparr>w_inFlightWriteRequest := i\<rparr>) = view s"
  "view (s\<lparr>w_closeRequest := cr\<rparr>) = view s"
  "view (s\<lparr>w_inFlightCloseRequest := ic\<rparr>) = view s"
  "view (s\<lparr>w_backpressure := b\<rparr>) = view s"
  "view (s\<lparr>wc_queueTotalSize := t\<rparr>) = view s"
  "view (s\<lparr>wc_started := st\<rparr>) = view s"
  "view (s\<lparr>wc_strategySizeAlgorithm := sa\<rparr>) = view s"
  "view (s\<lparr>wc_strategyHWM := hw\<rparr>) = view s"
  "view (s\<lparr>wc_writeAlgorithm := wa\<rparr>) = view s"
  "view (s\<lparr>wc_closeAlgorithm := ca\<rparr>) = view s"
  "view (s\<lparr>wc_abortAlgorithm := aa\<rparr>) = view s"
  by (simp_all add: view_def)

lemma view_frames [simp]:
  "view (withWriter f wr s) = view s"
  "view (WritableStreamRejectCloseAndClosedPromiseIfNeeded s) = view s"
  "view (WritableStreamUpdateBackpressure s b) = view s"
  "view (WritableStreamFinishInFlightWrite s) = view s"
  "view (WritableStreamDefaultControllerClearAlgorithms s) = view s"
  "view (fst (rejectedWith s r)) = view s"
  "view (fst (WritableStreamAddWriteRequest s)) = view s"
  "view (WritableStreamDefaultWriterRelease s) = view s"
  "view (fst (WritableStreamDefaultWriter_constructor s)) = view s"
  "view (WritableStreamMarkCloseRequestInFlight s) = view s"
  "view (WritableStreamMarkFirstWriteRequestInFlight s) = view s"
  "view (FinishErroring_onFulfilled ar s) = view s"
  "view (FinishErroring_onRejected ar r s) = view s"
  by (simp_all add: view_def withWriter_def WritableStreamRejectCloseAndClosedPromiseIfNeeded_def
      WritableStreamUpdateBackpressure_def WritableStreamFinishInFlightWrite_def
      WritableStreamDefaultControllerClearAlgorithms_def rejectedWith_def promiseRejectedWith_def
      WritableStreamAddWriteRequest_def newPromise_def WritableStreamDefaultWriterRelease_def
      WritableStreamDefaultWriter_constructor_def WritableStreamMarkCloseRequestInFlight_def
      WritableStreamMarkFirstWriteRequestInFlight_def FinishErroring_onFulfilled_def
      FinishErroring_onRejected_def Let_def
      split: option.splits prod.splits list.splits)

lemma vstableD:
  assumes "vstable P" and "P (st, pend, calls, q)"
  shows "st \<noteq> Writable"
    and "P (Errored, None, calls, [])"
    and "pend \<noteq> None \<Longrightarrow> P (Errored, None, calls @ [SinkAbort r p], [])"
    and "P (st, pend, calls @ [SinkClose p], q)"
    and "P (st, pend, calls, tl q)"
    and "q = (WriteRecord c, sz) # rest \<Longrightarrow> P (st, pend, calls @ [SinkWrite c p], q)"
    and "P (st, pend, calls, q @ [(CloseMarker, 0)])"
    and "st = Erroring \<Longrightarrow> pend = None \<Longrightarrow> P (Erroring, Some ar, calls, q)"
    and "P (Closed, (if st = Erroring then None else pend), calls, q)"
    and "P (st, None, calls, q)"
  using assms unfolding vstable_def by blast+

lemma vstable_state: "vstable P \<Longrightarrow> P (view s) \<Longrightarrow> w_state s \<noteq> Writable"
  using vstableD(1) [of P "w_state s" "w_pendingAbortRequest s" "w_calls s" "wc_queue s"]
  by (simp add: view_def)

lemma V_FinishErroring:
  assumes "vstable P" and "P (view s)"
  shows "P (view (fst (WritableStreamFinishErroring s)))"
proof -
  note p = assms(2) [unfolded view_def]
  show ?thesis
  proof (cases "w_pendingAbortRequest s")
    case None
    have "view (fst (WritableStreamFinishErroring s)) = (Errored, None, w_calls s, [])"
      using None
      by (simp add: WritableStreamFinishErroring_def Let_def w_ErrorSteps_def w_ResetQueue_def)
         (simp add: view_def)
    then show ?thesis using vstableD(2) [OF assms(1) p] by simp
  next
    case (Some ar)
    have "view (fst (WritableStreamFinishErroring s)) = (Errored, None, w_calls s, []) \<or>
          (\<exists>r p. view (fst (WritableStreamFinishErroring s)) =
                   (Errored, None, w_calls s @ [SinkAbort r p], []))"
      using Some
      by (simp add: WritableStreamFinishErroring_def Let_def w_ErrorSteps_def w_ResetQueue_def
          w_AbortSteps_def newPromise_def)
         (simp add: view_def WritableStreamDefaultControllerClearAlgorithms_def)
    then show ?thesis
      using vstableD(2) [OF assms(1) p] vstableD(3) [OF assms(1) p] Some by auto
  qed
qed

lemma V_DealWithRejection:
  "vstable P \<Longrightarrow> P (view s) \<Longrightarrow> P (view (fst (WritableStreamDealWithRejection s e)))"
  using vstable_state [of P s]
  by (simp add: WritableStreamDealWithRejection_def V_FinishErroring)

lemma V_ErrorIfNeeded:
  "vstable P \<Longrightarrow> P (view s) \<Longrightarrow> WritableStreamDefaultControllerErrorIfNeeded s e = (s, Normal ())"
  using vstable_state [of P s]
  by (simp add: WritableStreamDefaultControllerErrorIfNeeded_def)

lemma V_error:
  "vstable P \<Longrightarrow> P (view s) \<Longrightarrow> WritableStreamDefaultController_error s e = (s, Normal ())"
  using vstable_state [of P s]
  by (simp add: WritableStreamDefaultController_error_def)

lemma V_Abort:
  assumes "vstable P" and "P (view s)"
  shows "P (view (fst (WritableStreamAbort s reason)))"
proof -
  note p = assms(2) [unfolded view_def]
  have w: "w_state s \<noteq> Writable" using vstable_state [OF assms] .
  show ?thesis
  proof (cases "w_state s = Closed \<or> w_state s = Errored")
    case True
    then show ?thesis
      using assms(2) by (simp add: WritableStreamAbort_def promiseResolvedWith_def)
  next
    case False
    then have e: "w_state s = Erroring" using w by (cases "w_state s") simp_all
    show ?thesis
    proof (cases "w_pendingAbortRequest s")
      case None
      have "view (fst (WritableStreamAbort s reason)) =
            (Erroring, Some \<lparr>par_promise = length (w_heap s), par_reason = Undefined,
                             par_wasAlreadyErroring = True\<rparr>, w_calls s, wc_queue s)"
        using e None by (simp add: WritableStreamAbort_def newPromise_def Let_def view_def)
      then show ?thesis using vstableD(8) [OF assms(1) p e None] by simp
    next
      case (Some ar)
      then show ?thesis using e assms(2) by (simp add: WritableStreamAbort_def)
    qed
  qed
qed

lemma V_ProcessClose:
  assumes "vstable P" and "P (view s)"
  shows "P (view (fst (WritableStreamDefaultControllerProcessClose s)))"
proof -
  note p = assms(2) [unfolded view_def]
  note t = vstableD(5) [OF assms(1) p]
  have "view (fst (WritableStreamDefaultControllerProcessClose s)) =
          (w_state s, w_pendingAbortRequest s, w_calls s, tl (wc_queue s)) \<or>
        (\<exists>p. view (fst (WritableStreamDefaultControllerProcessClose s)) =
          (w_state s, w_pendingAbortRequest s, w_calls s @ [SinkClose p], tl (wc_queue s)))"
    by (simp add: WritableStreamDefaultControllerProcessClose_def Let_def newPromise_def
        w_DequeueValue_def WritableStreamMarkCloseRequestInFlight_def
        WritableStreamDefaultControllerClearAlgorithms_def view_def)
  then show ?thesis using t vstableD(4) [OF assms(1) t] by auto
qed

lemma V_ProcessWrite:
  assumes "vstable P" and "P (view s)" and "wc_queue s = (WriteRecord chunk, sz) # rest"
  shows "P (view (fst (WritableStreamDefaultControllerProcessWrite s chunk)))"
proof -
  note p = assms(2) [unfolded view_def]
  have "view (fst (WritableStreamDefaultControllerProcessWrite s chunk)) = view s \<or>
        (\<exists>p. view (fst (WritableStreamDefaultControllerProcessWrite s chunk)) =
          (w_state s, w_pendingAbortRequest s, w_calls s @ [SinkWrite chunk p], wc_queue s))"
    by (simp add: WritableStreamDefaultControllerProcessWrite_def Let_def newPromise_def
        WritableStreamMarkFirstWriteRequestInFlight_def view_def split: list.splits)
  then show ?thesis using assms(2) vstableD(6) [OF assms(1) p assms(3)] by auto
qed

lemma V_Advance:
  assumes "vstable P" and "P (view s)"
  shows "P (view (fst (WritableStreamDefaultControllerAdvanceQueueIfNeeded s)))"
  using assms
  by (auto simp add: WritableStreamDefaultControllerAdvanceQueueIfNeeded_def V_FinishErroring
      V_ProcessClose split: list.splits QueueRecord.splits intro: V_ProcessWrite)

lemma V_FinishInFlightClose:
  assumes "vstable P" and "P (view s)"
  shows "P (view (WritableStreamFinishInFlightClose s))"
proof -
  note p = assms(2) [unfolded view_def]
  have "view (WritableStreamFinishInFlightClose s) =
        (Closed, (if w_state s = Erroring then None else w_pendingAbortRequest s), w_calls s, wc_queue s)"
    by (simp add: WritableStreamFinishInFlightClose_def Let_def split: option.splits)
       (simp add: view_def)
  then show ?thesis using vstableD(9) [OF assms(1) p] by simp
qed

lemma V_FinishInFlightCloseWithError:
  assumes "vstable P" and "P (view s)"
  shows "P (view (fst (WritableStreamFinishInFlightCloseWithError s e)))"
proof -
  note p = assms(2) [unfolded view_def]
  define s1 where "s1 = s\<lparr>w_heap := settleRequest (w_inFlightCloseRequest s) (Reject e) (w_heap s),
                 w_inFlightCloseRequest := None\<rparr>"
  define s2 where "s2 = (case w_pendingAbortRequest s1 of
                  Some abortRequest \<Rightarrow>
                    s1\<lparr>w_heap := rejectPromise (par_promise abortRequest) e (w_heap s1),
                       w_pendingAbortRequest := None\<rparr>
                | None \<Rightarrow> s1)"
  have e: "WritableStreamFinishInFlightCloseWithError s e = WritableStreamDealWithRejection s2 e"
    unfolding WritableStreamFinishInFlightCloseWithError_def Let_def s2_def s1_def by (rule refl)
  have "view s2 = (w_state s, None, w_calls s, wc_queue s)"
    by (simp add: s2_def s1_def view_def split: option.splits)
  then have "P (view s2)" using vstableD(10) [OF assms(1) p] by simp
  then show ?thesis
    using assms(1) by (simp add: e V_DealWithRejection)
qed

lemma V_FinishInFlightWriteWithError:
  "vstable P \<Longrightarrow> P (view s) \<Longrightarrow> P (view (fst (WritableStreamFinishInFlightWriteWithError s e)))"
  by (simp add: WritableStreamFinishInFlightWriteWithError_def V_DealWithRejection)

lemma view_Dequeue: "view (w_DequeueValue s) = (w_state s, w_pendingAbortRequest s, w_calls s, tl (wc_queue s))"
  by (simp add: w_DequeueValue_def view_def)

lemma V_Dequeue: "vstable P \<Longrightarrow> P (view s) \<Longrightarrow> P (view (w_DequeueValue s))"
  using vstableD(5) [of P "w_state s" "w_pendingAbortRequest s" "w_calls s" "wc_queue s"]
  by (simp add: view_Dequeue) (simp add: view_def)

lemma V_ProcessWrite_onFulfilled:
  "vstable P \<Longrightarrow> P (view s) \<Longrightarrow> P (view (fst (ProcessWrite_onFulfilled s)))"
  by (simp add: ProcessWrite_onFulfilled_def Let_def V_Advance V_Dequeue)

lemma V_ProcessWrite_onRejected:
  "vstable P \<Longrightarrow> P (view s) \<Longrightarrow> P (view (fst (ProcessWrite_onRejected r s)))"
  by (simp add: ProcessWrite_onRejected_def V_FinishInFlightWriteWithError)

lemma V_ControllerClose:
  assumes "vstable P" and "P (view s)"
  shows "P (view (fst (WritableStreamDefaultControllerClose s)))"
proof -
  note p = assms(2) [unfolded view_def]
  define s1 where "s1 = s\<lparr>wc_queue := wc_queue s @ [(CloseMarker, 0)],
                            wc_queueTotalSize := wc_queueTotalSize s + 0\<rparr>"
  have e: "WritableStreamDefaultControllerClose s = WritableStreamDefaultControllerAdvanceQueueIfNeeded s1"
    by (simp add: WritableStreamDefaultControllerClose_def w_EnqueueValueWithSize_def
        IsFiniteNonNegativeNumber_def numberOf_def s1_def)
  have "view s1 = (w_state s, w_pendingAbortRequest s, w_calls s, wc_queue s @ [(CloseMarker, 0)])"
    by (simp add: s1_def view_def)
  then have "P (view s1)" using vstableD(7) [OF assms(1) p] by simp
  then show ?thesis using assms(1) by (simp add: e V_Advance)
qed

lemma V_Close:
  assumes "vstable P" and "P (view s)"
  shows "P (view (fst (WritableStreamClose s)))"
proof -
  have w: "w_state s \<noteq> Writable" using vstable_state [OF assms] .
  have c: "P (view (s\<lparr>w_heap := h, w_closeRequest := r\<rparr>))" for h r
    using assms(2) by simp
  show ?thesis
    using assms w
    by (simp add: WritableStreamClose_def Let_def newPromise_def c V_ControllerClose
        split: option.splits)
qed

lemma V_GetChunkSize:
  assumes "vstable P" and "P (view s)"
  shows "fst (WritableStreamDefaultControllerGetChunkSize s chunk) = s"
  using V_ErrorIfNeeded [OF assms]
  by (simp add: WritableStreamDefaultControllerGetChunkSize_def split: option.splits completion.splits)

lemma V_WriterWrite:
  assumes "vstable P" and "P (view s)"
  shows "P (view (fst (WritableStreamDefaultWriterWrite s chunk)))"
proof -
  have w: "w_state s \<noteq> Writable" using vstable_state [OF assms] .
  obtain c where e: "WritableStreamDefaultControllerGetChunkSize s chunk = (s, c)"
    using V_GetChunkSize [OF assms, of chunk]
    by (cases "WritableStreamDefaultControllerGetChunkSize s chunk") simp
  show ?thesis
    using assms(2) w
    by (cases "w_state s")
       (simp_all add: WritableStreamDefaultWriterWrite_def e Let_def split: completion.splits)
qed

lemma V_handlers:
  assumes "vstable P" and "P (view s)"
  shows "P (view (fst (SetUp_onFulfilled s)))" and "P (view (fst (SetUp_onRejected r s)))"
proof -
  have a: "P (view (s\<lparr>wc_started := True\<rparr>))" using assms(2) by simp
  show "P (view (fst (SetUp_onFulfilled s)))"
    using a assms(1) by (simp add: SetUp_onFulfilled_def V_Advance)
  show "P (view (fst (SetUp_onRejected r s)))"
    using a assms(1) by (simp add: SetUp_onRejected_def V_DealWithRejection)
qed

lemma V_runReaction:
  "vstable P \<Longrightarrow> P (view s) \<Longrightarrow> P (view (runReaction reaction out s))"
  by (cases reaction; cases out)
     (simp_all add: V_handlers V_ProcessWrite_onFulfilled V_ProcessWrite_onRejected
        V_FinishInFlightClose V_FinishInFlightCloseWithError)

lemma V_settle:
  assumes "vstable P" and "P (view s)"
  shows "P (view (settle p out s))"
proof -
  have "P (view (s\<lparr>w_heap := h, w_reactions := rs\<rparr>))" for h rs
    using assms(2) by simp
  then show ?thesis
    using assms by (simp add: settle_def V_runReaction split: option.splits)
qed

lemma V_step:
  "vstable P \<Longrightarrow> P (view s) \<Longrightarrow> P (view (w_step e s))"
  by (cases e)
     (simp_all add: WritableStream_abort_def WritableStream_close_def WritableStream_getWriter_def
        Writer_abort_def Writer_close_def Writer_write_def Writer_releaseLock_def
        WritableStreamDefaultWriterAbort_def WritableStreamDefaultWriterClose_def
        V_Abort V_Close V_WriterWrite V_error V_settle)

lemma V_run:
  "vstable P \<Longrightarrow> P (view s) \<Longrightarrow> P (view (w_run es s))"
  by (induction es arbitrary: s) (simp_all add: V_step)

lemma countAborts_append [simp]:
  "countAborts (cs @ ds) = countAborts cs + countAborts ds"
  "countAborts [SinkClose p] = 0" "countAborts [SinkWrite c p] = 0" "countAborts [SinkStart p] = 0"
  "countAborts [SinkAbort r p] = 1"
  by (simp_all add: countAborts_def)

lemma vstable_terminalV: "vstable (terminalV n)"
  by (auto simp add: vstable_def terminalV_def)

lemma chunks_simps [simp]:
  "queueChunks [] = []"
  "queueChunks (q @ q') = queueChunks q @ queueChunks q'"
  "queueChunks [(CloseMarker, sz)] = []"
  "queueChunks ((WriteRecord c, sz) # rest) = c # queueChunks rest"
  "sinkWriteChunks (cs @ ds) = sinkWriteChunks cs @ sinkWriteChunks ds"
  "sinkWriteChunks [SinkClose p] = []" "sinkWriteChunks [SinkWrite c p] = [c]"
  "sinkWriteChunks [SinkAbort r p] = []"
  by (simp_all add: queueChunks_def sinkWriteChunks_def)



lemma abortCalls_countAborts: "abortCalls s = countAborts (w_calls s)"
  by (simp add: abortCalls_def countAborts_def)

lemma terminal_run:
  assumes "w_state s = Closed \<or> w_state s = Errored" and "w_pendingAbortRequest s = None"
  shows "abortCalls (w_run es s) = abortCalls s"
proof -
  have "terminalV (abortCalls s) (view s)"
    using assms by (simp add: terminalV_def view_def abortCalls_countAborts)
  then have "terminalV (abortCalls s) (view (w_run es s))"
    using V_run [OF vstable_terminalV] by blast
  then show ?thesis by (simp add: terminalV_def view_def abortCalls_countAborts)
qed

lemma lookup_resolve:
  "lookupPromise h p = Some Pending \<Longrightarrow> lookupPromise (resolvePromise p v h) p = Some (Fulfilled v)"
  "lookupPromise h p = Some (Fulfilled v) \<Longrightarrow> lookupPromise (resolvePromise q v h) p = Some (Fulfilled v)"
  "lookupPromise h p = Some Pending \<Longrightarrow>
     lookupPromise (resolvePromise q v h) p = Some (if p = q then Fulfilled v else Pending)"
  by (auto simp add: lookupPromise_def resolvePromise_def nth_list_update split: if_splits)

subsection \<open>Example streams\<close>

lemma erroredExample_state: "w_state erroredExample = Errored"
  by (simp add: erroredExample_def w_defs promise_defs writer_helper_defs Let_def)

lemma w_run_reachable: "w_reachable s \<Longrightarrow> w_reachable (w_run es s)"
  by (induction es arbitrary: s) (simp_all add: w_reachable.stepped)

lemma run_created_reachable: "w_reachable (w_run es (CreateWritableStream hwm sz))"
  by (simp add: w_run_reachable w_reachable.created)

lemma w_run_append: "w_run (es @ fs) s = w_run fs (w_run es s)"
  by (induction es arbitrary: s) simp_all

lemma startedExample_eq:
  "startedExample =
   \<lparr>w_heap = [Fulfilled Undefined], w_calls = [SinkStart 0], w_reactions = [],
    w_state = Writable, w_storedError = Undefined, w_writer = None, w_writeRequests = [],
    w_inFlightWriteRequest = None, w_closeRequest = None, w_inFlightCloseRequest = None,
    w_pendingAbortRequest = None, w_backpressure = False, wc_queue = [], wc_queueTotalSize = 0,
    wc_started = True, wc_strategySizeAlgorithm = Some countSize, wc_strategyHWM = 1,
    wc_writeAlgorithm = True, wc_closeAlgorithm = True, wc_abortAlgorithm = True\<rparr>"
  by (simp add: startedExample_def w_defs promise_defs writer_helper_defs Let_def)

lemma closedExample_eq:
  "closedExample =
   \<lparr>w_heap = [Fulfilled Undefined, Fulfilled Undefined, Fulfilled Undefined],
    w_calls = [SinkStart 0, SinkClose 2], w_reactions = [],
    w_state = Closed, w_storedError = Undefined, w_writer = None, w_writeRequests = [],
    w_inFlightWriteRequest = None, w_closeRequest = None, w_inFlightCloseRequest = None,
    w_pendingAbortRequest = None, w_backpressure = False, wc_queue = [], wc_queueTotalSize = 0,
    wc_started = True, wc_strategySizeAlgorithm = None, wc_strategyHWM = 1,
    wc_writeAlgorithm = False, wc_closeAlgorithm = False, wc_abortAlgorithm = False\<rparr>"
  by (simp add: closedExample_def startedExample_eq w_defs promise_defs writer_helper_defs Let_def)

lemma abortingExample_eq:
  "abortingExample =
   \<lparr>w_heap = [Fulfilled Undefined, Pending, Pending, Pending],
    w_calls = [SinkStart 0, SinkClose 2], w_reactions = [(2, OnSinkClose)],
    w_state = Erroring, w_storedError = Opaque 7, w_writer = None, w_writeRequests = [],
    w_inFlightWriteRequest = None, w_closeRequest = None, w_inFlightCloseRequest = Some 1,
    w_pendingAbortRequest = Some \<lparr>par_promise = 3, par_reason = Opaque 7, par_wasAlreadyErroring = False\<rparr>,
    w_backpressure = False, wc_queue = [], wc_queueTotalSize = 0,
    wc_started = True, wc_strategySizeAlgorithm = None, wc_strategyHWM = 1,
    wc_writeAlgorithm = False, wc_closeAlgorithm = False, wc_abortAlgorithm = False\<rparr>"
  by (simp add: abortingExample_def startedExample_eq w_defs promise_defs writer_helper_defs Let_def)

lemma erroringExample_facts:
  "w_state erroringExample = Erroring" "w_pendingAbortRequest erroringExample = None"
  "w_heap erroringExample =
     [Fulfilled Undefined, Fulfilled Undefined, Pending, Pending, Rejected (Opaque 5), Pending]"
  by (simp_all add: erroringExample_def startedExample_eq w_defs promise_defs writer_helper_defs Let_def)

lemma examples_reachable:
  "w_reachable startedExample" "w_reachable closedExample" "w_reachable abortingExample"
  "w_reachable erroringExample" "w_reachable erroredExample"
proof -
  show a: "w_reachable startedExample"
    unfolding startedExample_def by (rule run_created_reachable)
  show "w_reachable closedExample"
    unfolding closedExample_def by (rule w_run_reachable [OF a])
  show "w_reachable abortingExample"
    unfolding abortingExample_def by (rule w_run_reachable [OF a])
  show "w_reachable erroringExample"
    unfolding erroringExample_def by (rule w_run_reachable [OF a])
  show "w_reachable erroredExample"
    unfolding erroredExample_def by (rule run_created_reachable)
qed

lemma abortingExample_facts:
  "w_pendingAbortRequest abortingExample =
     Some \<lparr>par_promise = 3, par_reason = Opaque 7, par_wasAlreadyErroring = False\<rparr>"
  "w_inFlightCloseRequest abortingExample = Some 1"
  "w_heap abortingExample = [Fulfilled Undefined, Pending, Pending, Pending]"
  "w_state abortingExample = Erroring"
  by (simp_all add: abortingExample_eq)

lemma closedExample_facts:
  "w_state closedExample = Closed" "length (w_heap closedExample) = 3"
  by (simp_all add: closedExample_eq)

lemma abortingExample_more:
  "lookupPromise (w_heap abortingExample) 3 = Some Pending"
  "abortCalls abortingExample = 0"
  by (simp_all add: abortingExample_eq lookupPromise_def abortCalls_def)



lemma transformExample_facts:
  "t_backpressure transformExample = Some True"
  "t_backpressureChangePromise transformExample = Some 0"
  "t_heap transformExample = [Pending]"
  by (simp_all add: transformExample_def t_defs promise_defs Let_def)

lemma readableExample_facts:
  "r_state readableExample = Readable" "rc_closeRequested readableExample = False"
  "rc_started readableExample = True" "rc_strategyHWM readableExample = 1"
  "rc_queueTotalSize readableExample = 0" "r_reader readableExample = None"
  by (simp_all add: readableExample_def r_defs promise_defs Let_def)


lemma throwingReadableExample_facts:
  "r_state throwingReadableExample = Readable" "rc_closeRequested throwingReadableExample = False"
  "r_reader throwingReadableExample = None"
  "rc_strategySizeAlgorithm throwingReadableExample = Some throwingSize"
  "r_heap throwingReadableExample = [Pending]" "r_calls throwingReadableExample = [SourceStart 0]"
  "rc_cancelAlgorithm throwingReadableExample = True"
  by (simp_all add: throwingReadableExample_def r_defs promise_defs Let_def)


lemma terminatedTransformExample_facts:
  "w_inFlightCloseRequest (t_writable terminatedTransformExample) = Some 1"
  "w_state (t_writable terminatedTransformExample) = Erroring"
  "r_state (t_readable terminatedTransformExample) = ReadableClosed"
  "r_storedError (t_readable terminatedTransformExample) = Undefined"
  by (simp_all add: terminatedTransformExample_def closingTransformExample_def t_defs w_defs r_defs
      promise_defs writer_helper_defs Let_def)

subsection \<open>C1: the pull algorithm of the readable side of a transform stream\<close>

text \<open>
  C1 as stated fails. On a newly created transform stream backpressure is true and the
  backpressure-change settlement is promise 0; the pull algorithm returns promise 1, which
  is not the prior settlement, and promise 1 is pending when it is returned.
\<close>

theorem C1_source_pull_counterexample:
  "t_backpressure transformExample = Some True \<and>
   t_backpressureChangePromise transformExample = Some 0 \<and>
   snd (TransformStreamDefaultSourcePullAlgorithm transformExample) = Some 1 \<and>
   lookupPromise (t_heap (fst (TransformStreamDefaultSourcePullAlgorithm transformExample))) 1
     = Some Pending"
  by (simp add: transformExample_def t_defs promise_defs Let_def)

text \<open>
  C1, amended. For every transform stream on which the readable-side pull algorithm runs
  with backpressure true (the source asserts it) and a pending backpressure-change
  settlement: the algorithm sets backpressure to false, resolves the prior settlement
  with \<^verbatim>\<open>undefined\<close>, installs a fresh settlement in its place, and returns the fresh
  one, which is pending when returned and is not the prior one.
\<close>

theorem C1_source_pull_amended:
  assumes "t_backpressure t = Some True"
      and "t_backpressureChangePromise t = Some prior"
      and "lookupPromise (t_heap t) prior = Some Pending"
  shows "t_backpressure (fst (TransformStreamDefaultSourcePullAlgorithm t)) = Some False \<and>
         lookupPromise (t_heap (fst (TransformStreamDefaultSourcePullAlgorithm t))) prior
           = Some (Fulfilled Undefined) \<and>
         snd (TransformStreamDefaultSourcePullAlgorithm t) = Some (length (t_heap t)) \<and>
         prior \<noteq> length (t_heap t) \<and>
         t_backpressureChangePromise (fst (TransformStreamDefaultSourcePullAlgorithm t))
           = Some (length (t_heap t)) \<and>
         lookupPromise (t_heap (fst (TransformStreamDefaultSourcePullAlgorithm t))) (length (t_heap t))
           = Some Pending"
  using assms
  by (auto simp add: t_defs promise_defs Let_def nth_append split: if_splits)

theorem C1_source_pull_amended_witness:
  "t_backpressure transformExample = Some True \<and>
   t_backpressureChangePromise transformExample = Some 0 \<and>
   lookupPromise (t_heap transformExample) 0 = Some Pending \<and>
   t_backpressure (fst (TransformStreamDefaultSourcePullAlgorithm transformExample)) = Some False \<and>
   lookupPromise (t_heap (fst (TransformStreamDefaultSourcePullAlgorithm transformExample))) 0
     = Some (Fulfilled Undefined) \<and>
   snd (TransformStreamDefaultSourcePullAlgorithm transformExample) = Some 1"
  using C1_source_pull_amended [of transformExample 0]
  by (simp add: transformExample_facts lookupPromise_def)

subsection \<open>C2: a sink close that fulfils while an abort is pending\<close>

text \<open>
  C2. For every writable stream that can arise, with a pending abort request (whether or
  not the stream was already erroring) and a sink close in flight: when the sink's close
  algorithm fulfils, so that \<^verbatim>\<open>WritableStreamFinishInFlightClose\<close> runs, the stream is
  closed, the settlement of the abort request is fulfilled with \<^verbatim>\<open>undefined\<close>, the stored
  error is \<^verbatim>\<open>undefined\<close>, no abort request is pending any more, and whatever events
  follow, the sink's abort algorithm is not called: the number of its calls stays what it
  was.
\<close>

theorem C2_close_fulfilled_with_pending_abort:
  assumes "w_reachable s"
      and "w_pendingAbortRequest s = Some abortRequest"
      and "w_inFlightCloseRequest s = Some closeRequest"
  shows "w_state (WritableStreamFinishInFlightClose s) = Closed \<and>
         lookupPromise (w_heap (WritableStreamFinishInFlightClose s)) (par_promise abortRequest)
           = Some (Fulfilled Undefined) \<and>
         w_storedError (WritableStreamFinishInFlightClose s) = Undefined \<and>
         w_pendingAbortRequest (WritableStreamFinishInFlightClose s) = None \<and>
         (\<forall>es. abortCalls (w_run es (WritableStreamFinishInFlightClose s)) = abortCalls s)"
proof -
  have e: "w_state s = Erroring"
    using reachable_abortInv [OF assms(1)] assms(2) by (simp add: abortInv_def)
  have pp: "lookupPromise (w_heap s) (par_promise abortRequest) = Some Pending"
    by (rule pendingAbort_pending(1) [OF assms(1,2)])
  let ?s' = "WritableStreamFinishInFlightClose s"
  have st: "w_state ?s' = Closed" and pn: "w_pendingAbortRequest ?s' = None"
    and se: "w_storedError ?s' = Undefined" and ca: "w_calls ?s' = w_calls s"
    using e assms(2)
    by (simp_all add: WritableStreamFinishInFlightClose_def Let_def withWriter_def
        split: option.splits prod.splits)
  have h1: "lookupPromise (resolvePromise (par_promise abortRequest) Undefined
              (resolvePromise closeRequest Undefined (w_heap s))) (par_promise abortRequest)
            = Some (Fulfilled Undefined)"
    using lookup_resolve(3) [OF pp, of closeRequest Undefined]
    by (auto simp add: lookup_resolve split: if_splits)
  have hp: "lookupPromise (w_heap ?s') (par_promise abortRequest) = Some (Fulfilled Undefined)"
    using e assms(2,3) h1
    by (auto simp add: WritableStreamFinishInFlightClose_def Let_def withWriter_def settleRequest_def
        defaultWriterClosedPromiseResolve_def lookup_resolve(2)
        split: option.splits prod.splits)
  have "abortCalls (w_run es ?s') = abortCalls s" for es
    using terminal_run [of ?s' es] st pn ca by (simp add: abortCalls_def)
  then show ?thesis using st pn se hp by simp
qed

theorem C2_close_fulfilled_with_pending_abort_witness:
  "w_reachable abortingExample \<and>
   w_pendingAbortRequest abortingExample =
     Some \<lparr>par_promise = 3, par_reason = Opaque 7, par_wasAlreadyErroring = False\<rparr> \<and>
   w_inFlightCloseRequest abortingExample = Some 1 \<and>
   lookupPromise (w_heap abortingExample) 3 = Some Pending \<and>
   w_state (WritableStreamFinishInFlightClose abortingExample) = Closed \<and>
   lookupPromise (w_heap (WritableStreamFinishInFlightClose abortingExample)) 3
     = Some (Fulfilled Undefined) \<and>
   w_storedError (WritableStreamFinishInFlightClose abortingExample) = Undefined \<and>
   abortCalls (w_run [CallAbort (Opaque 1), CallGetWriter, CallWriterWrite (Opaque 2)]
                 (WritableStreamFinishInFlightClose abortingExample)) = 0"
proof -
  note t = C2_close_fulfilled_with_pending_abort [OF examples_reachable(3) abortingExample_facts(1)
      abortingExample_facts(2)]
  have a: "abortCalls (w_run [CallAbort (Opaque 1), CallGetWriter, CallWriterWrite (Opaque 2)]
                 (WritableStreamFinishInFlightClose abortingExample)) = 0"
    using t abortingExample_more(2) by (simp del: w_run.simps)
  show ?thesis
    using t a
    by (simp add: abortingExample_more abortingExample_facts(1,2,4) examples_reachable
        del: w_run.simps)
qed

subsection \<open>C3: a flush that rejects\<close>












subsection \<open>C4: when the readable controller should pull\<close>

text \<open>
  C4. For every readable stream with a default controller, the should-pull predicate is
  true if and only if the controller can still close or enqueue (the state is readable
  and close has not been requested), and started is true, and either the stream is locked
  with more than 0 pending read requests or the high-water mark minus the queue's total
  size is greater than 0.
\<close>

theorem C4_should_pull:
  "ReadableStreamDefaultControllerShouldCallPull s =
     ((r_state s = Readable \<and> \<not> rc_closeRequested s) \<and> rc_started s \<and>
      ((IsReadableStreamLocked s \<and> ReadableStreamGetNumReadRequests s > 0) \<or>
       rc_strategyHWM s - rc_queueTotalSize s > 0))
   \<and> ReadableStreamDefaultControllerCanCloseOrEnqueue s =
        (r_state s = Readable \<and> \<not> rc_closeRequested s)"
  by (auto simp add: ReadableStreamDefaultControllerShouldCallPull_def
      ReadableStreamDefaultControllerCanCloseOrEnqueue_def
      ReadableStreamDefaultControllerGetDesiredSize_def)

theorem C4_should_pull_witness:
  "ReadableStreamDefaultControllerShouldCallPull readableExample = True \<and>
   ReadableStreamDefaultControllerCanCloseOrEnqueue readableExample = True \<and>
   rc_started readableExample = True \<and>
   IsReadableStreamLocked readableExample = False \<and>
   rc_strategyHWM readableExample - rc_queueTotalSize readableExample = 1"
  using C4_should_pull [of readableExample]
  by (simp add: readableExample_facts IsReadableStreamLocked_def)

subsection \<open>C5: enqueue on the readable controller\<close>





subsection \<open>C6: cancelling twice\<close>

lemma CallPull_closed:
  "r_state s \<noteq> Readable \<Longrightarrow> ReadableStreamDefaultControllerCallPullIfNeeded s = (s, Normal ())"
  by (simp add: ReadableStreamDefaultControllerCallPullIfNeeded_def
      ReadableStreamDefaultControllerShouldCallPull_def
      ReadableStreamDefaultControllerCanCloseOrEnqueue_def)

lemma r_runReaction_closed:
  "r_state s = ReadableClosed \<Longrightarrow>
   r_state (r_runReaction reaction out s) = ReadableClosed \<and>
   r_calls (r_runReaction reaction out s) = r_calls s \<and>
   r_reader (r_runReaction reaction out s) = r_reader s"
  by (cases reaction; cases out)
     (simp_all add: r_SetUp_onFulfilled_def r_SetUp_onRejected_def CallPull_onFulfilled_def
        CallPull_onRejected_def CallPull_closed ReadableStreamDefaultControllerError_def Let_def)

lemma r_settle_closed:
  "r_state s = ReadableClosed \<Longrightarrow>
   r_state (r_settle p out s) = ReadableClosed \<and>
   r_calls (r_settle p out s) = r_calls s \<and>
   r_reader (r_settle p out s) = r_reader s"
  using r_runReaction_closed
  by (simp add: r_settle_def split: option.splits)

lemma Cancel_closed:
  "r_state s = ReadableClosed \<Longrightarrow>
   ReadableStreamCancel s reason =
     (s\<lparr>r_disturbed := True, r_heap := r_heap s @ [Fulfilled Undefined]\<rparr>, Normal (length (r_heap s)))"
  by (simp add: ReadableStreamCancel_def promiseResolvedWith_def Let_def)

lemma Cancel_readable:
  assumes "r_state s = Readable" "r_reader s = None"
  shows "r_state (fst (ReadableStreamCancel s reason)) = ReadableClosed \<and>
         r_reader (fst (ReadableStreamCancel s reason)) = None \<and>
         r_calls (fst (ReadableStreamCancel s reason)) =
           (if rc_cancelAlgorithm s then r_calls s @ [SourceCancel reason (length (r_heap s))]
            else r_calls s) \<and>
         snd (ReadableStreamCancel s reason) =
           (if rc_cancelAlgorithm s then Normal (Suc (length (r_heap s))) else Throw notAFunction)"
  using assms
  by (simp add: ReadableStreamCancel_def ReadableStreamClose_def r_CancelSteps_def r_ResetQueue_def
      ReadableStreamDefaultControllerClearAlgorithms_def newPromise_def Let_def)

text \<open>
  C6. For every unlocked readable stream in state readable: cancel closes the stream and,
  while the controller's cancel algorithm is set, calls it once; when cancel is called
  again after a promise has settled, the second call returns a new settlement that is
  fulfilled with \<^verbatim>\<open>undefined\<close> and records no call of the source, so the cancel algorithm
  has been called at most once across both.
\<close>

theorem C6_cancel_twice:
  assumes "r_state s = Readable" and "\<not> IsReadableStreamLocked s"
  shows "let first = ReadableStream_cancel s reason1;
             settled = r_settle p out (fst first);
             second = ReadableStream_cancel settled reason2
         in r_state (fst first) = ReadableClosed \<and>
            (rc_cancelAlgorithm s \<longrightarrow>
               snd first = Normal (Suc (length (r_heap s))) \<and>
               r_calls (fst first) = r_calls s @ [SourceCancel reason1 (length (r_heap s))]) \<and>
            snd second = Normal (length (r_heap settled)) \<and>
            lookupPromise (r_heap (fst second)) (length (r_heap settled)) = Some (Fulfilled Undefined) \<and>
            r_calls (fst second) = r_calls (fst first) \<and>
            cancelCalls (fst second) \<le> cancelCalls s + 1"
proof -
  have u: "r_reader s = None" using assms(2) by (simp add: IsReadableStreamLocked_def)
  have f: "ReadableStream_cancel s reason1 = ReadableStreamCancel s reason1"
    using assms(2) by (simp add: ReadableStream_cancel_def)
  note c = Cancel_readable [OF assms(1) u, of reason1]
  let ?s1 = "fst (ReadableStreamCancel s reason1)"
  let ?s2 = "r_settle p out ?s1"
  have s2: "r_state ?s2 = ReadableClosed" "r_calls ?s2 = r_calls ?s1" "r_reader ?s2 = None"
    using r_settle_closed [of ?s1 p out] c by simp_all
  have g: "ReadableStream_cancel ?s2 reason2 = ReadableStreamCancel ?s2 reason2"
    using s2 by (simp add: ReadableStream_cancel_def IsReadableStreamLocked_def)
  show ?thesis
    using c s2
    by (simp add: f g Cancel_closed [OF s2(1)] Let_def lookupPromise_def cancelCalls_def)
qed

theorem C6_cancel_twice_witness:
  "r_state throwingReadableExample = Readable \<and> \<not> IsReadableStreamLocked throwingReadableExample \<and>
   snd (ReadableStream_cancel throwingReadableExample (Opaque 1)) = Normal 2 \<and>
   r_calls (fst (ReadableStream_cancel throwingReadableExample (Opaque 1))) =
     [SourceStart 0, SourceCancel (Opaque 1) 1] \<and>
   snd (ReadableStream_cancel
          (r_settle 1 (Fulfil Undefined) (fst (ReadableStream_cancel throwingReadableExample (Opaque 1))))
          (Opaque 2)) = Normal 3 \<and>
   lookupPromise
     (r_heap (fst (ReadableStream_cancel
          (r_settle 1 (Fulfil Undefined) (fst (ReadableStream_cancel throwingReadableExample (Opaque 1))))
          (Opaque 2)))) 3 = Some (Fulfilled Undefined) \<and>
   r_calls (fst (ReadableStream_cancel
          (r_settle 1 (Fulfil Undefined) (fst (ReadableStream_cancel throwingReadableExample (Opaque 1))))
          (Opaque 2))) = [SourceStart 0, SourceCancel (Opaque 1) 1]"
proof -
  have u: "\<not> IsReadableStreamLocked throwingReadableExample"
    by (simp add: IsReadableStreamLocked_def throwingReadableExample_facts)
  have h: "length (r_heap (r_settle 1 (Fulfil Undefined)
             (fst (ReadableStream_cancel throwingReadableExample (Opaque 1))))) = 3"
    by (simp add: throwingReadableExample_def r_defs promise_defs Let_def)
  show ?thesis
    using C6_cancel_twice [OF throwingReadableExample_facts(1) u, of "Opaque 1" 1 "Fulfil Undefined" "Opaque 2"] u
    by (simp add: Let_def throwingReadableExample_facts h del: One_nat_def)
qed

subsection \<open>C7: abort\<close>

text \<open>
  C7. For every writable stream that can arise: aborting when the state is closed or
  errored returns a new settlement that is already fulfilled with \<^verbatim>\<open>undefined\<close> and
  changes nothing else; when a pending abort request exists, a further abort returns the
  settlement of that request and creates nothing (the stream, with its heap, is
  unchanged); and when the state is erroring with no pending abort, a new abort request
  is recorded with \<^verbatim>\<open>_wasAlreadyErroring\<close> true and the reason \<^verbatim>\<open>undefined\<close> in place of the
  caller's, and its new pending settlement is returned.
\<close>

theorem C7_abort:
  assumes "w_reachable s"
  shows "(w_state s = Closed \<or> w_state s = Errored \<longrightarrow>
            WritableStreamAbort s reason =
              (s\<lparr>w_heap := w_heap s @ [Fulfilled Undefined]\<rparr>, Normal (length (w_heap s))))
       \<and> (\<forall>existing. w_pendingAbortRequest s = Some existing \<longrightarrow>
            WritableStreamAbort s reason = (s, Normal (par_promise existing)))
       \<and> (w_state s = Erroring \<and> w_pendingAbortRequest s = None \<longrightarrow>
            WritableStreamAbort s reason =
              (s\<lparr>w_heap := w_heap s @ [Pending],
                 w_pendingAbortRequest :=
                   Some \<lparr>par_promise = length (w_heap s), par_reason = Undefined,
                         par_wasAlreadyErroring = True\<rparr>\<rparr>,
               Normal (length (w_heap s))))"
proof -
  have inv: "w_pendingAbortRequest s = None \<or> w_state s = Erroring"
    using assms reachable_abortInv by (simp add: abortInv_def)
  show ?thesis
    using inv
    by (auto simp add: WritableStreamAbort_def promiseResolvedWith_def newPromise_def Let_def)
qed

theorem C7_abort_witness:
  "w_reachable closedExample \<and> w_state closedExample = Closed \<and>
   WritableStreamAbort closedExample (Opaque 3) =
     (closedExample\<lparr>w_heap := w_heap closedExample @ [Fulfilled Undefined]\<rparr>, Normal 3) \<and>
   w_reachable abortingExample \<and>
   w_pendingAbortRequest abortingExample =
     Some \<lparr>par_promise = 3, par_reason = Opaque 7, par_wasAlreadyErroring = False\<rparr> \<and>
   WritableStreamAbort abortingExample (Opaque 3) = (abortingExample, Normal 3) \<and>
   w_reachable erroringExample \<and> w_state erroringExample = Erroring \<and>
   w_pendingAbortRequest erroringExample = None \<and>
   WritableStreamAbort erroringExample (Opaque 3) =
     (erroringExample\<lparr>w_heap := w_heap erroringExample @ [Pending],
        w_pendingAbortRequest :=
          Some \<lparr>par_promise = 6, par_reason = Undefined, par_wasAlreadyErroring = True\<rparr>\<rparr>,
      Normal 6)"
proof -
  have a: "WritableStreamAbort closedExample (Opaque 3) =
     (closedExample\<lparr>w_heap := w_heap closedExample @ [Fulfilled Undefined]\<rparr>, Normal 3)"
    using C7_abort [OF examples_reachable(2), of "Opaque 3"] by (simp add: closedExample_facts)
  have b: "WritableStreamAbort abortingExample (Opaque 3) = (abortingExample, Normal 3)"
    using C7_abort [OF examples_reachable(3), of "Opaque 3"] by (simp add: abortingExample_facts)
  have c: "WritableStreamAbort erroringExample (Opaque 3) =
     (erroringExample\<lparr>w_heap := w_heap erroringExample @ [Pending],
        w_pendingAbortRequest :=
          Some \<lparr>par_promise = 6, par_reason = Undefined, par_wasAlreadyErroring = True\<rparr>\<rparr>,
      Normal 6)"
    using C7_abort [OF examples_reachable(4), of "Opaque 3"] by (simp add: erroringExample_facts)
  show ?thesis
    using a b c by (simp add: examples_reachable closedExample_facts abortingExample_facts erroringExample_facts)
qed

subsection \<open>C8: a size function that throws\<close>






subsection \<open>C9: the controller's error method outside the writable state\<close>

text \<open>
  C9. On a writable stream whose state is not writable (closed, erroring or errored), the
  public \<^verbatim>\<open>error(e)\<close> method of the default controller returns and changes nothing: the
  state, the stored error, the queue and its total size, and every pending settlement
  (the whole stream, with its heap of promises) are as before.
\<close>

theorem C9_controller_error_is_noop:
  "w_state s \<noteq> Writable \<Longrightarrow> WritableStreamDefaultController_error s e = (s, Normal ())"
  by (simp add: WritableStreamDefaultController_error_def)

theorem C9_controller_error_is_noop_witness:
  "w_state erroredExample \<noteq> Writable \<and>
   WritableStreamDefaultController_error erroredExample (Opaque 2) = (erroredExample, Normal ())"
  using C9_controller_error_is_noop [of erroredExample "Opaque 2"]
  by (simp add: erroredExample_state)

subsection \<open>C10: the settlements of a new writer\<close>

text \<open>
  C10. Constructing a writer on an unlocked writable stream returns normally and sets the
  two settlements of the writer from the state of the stream at that time: errored gives
  ready and closed both rejected with the stored error; closed gives both fulfilled;
  erroring gives ready rejected with the stored error and closed pending; writable gives
  closed pending, and ready pending exactly when backpressure is true and no close is
  queued or in flight, fulfilled otherwise.
\<close>

theorem C10_writer_constructor:
  assumes "\<not> IsWritableStreamLocked s"
      and "WritableStreamDefaultWriter_constructor s = (s', c)"
  shows "c = Normal () \<and>
     (\<exists>wr. w_writer s' = Some wr \<and>
     lookupPromise (w_heap s') (readyPromise wr) =
       Some (case w_state s of
               Errored \<Rightarrow> Rejected (w_storedError s)
             | Closed \<Rightarrow> Fulfilled Undefined
             | Erroring \<Rightarrow> Rejected (w_storedError s)
             | Writable \<Rightarrow>
                 if w_backpressure s \<and> \<not> WritableStreamCloseQueuedOrInFlight s
                 then Pending else Fulfilled Undefined) \<and>
     lookupPromise (w_heap s') (closedPromise wr) =
       Some (case w_state s of
               Errored \<Rightarrow> Rejected (w_storedError s)
             | Closed \<Rightarrow> Fulfilled Undefined
             | Erroring \<Rightarrow> Pending
             | Writable \<Rightarrow> Pending) \<and>
     readyPromiseState wr =
       (case w_state s of
          Errored \<Rightarrow> ReadyRejected
        | Closed \<Rightarrow> ReadyFulfilled
        | Erroring \<Rightarrow> ReadyRejected
        | Writable \<Rightarrow>
            if w_backpressure s \<and> \<not> WritableStreamCloseQueuedOrInFlight s
            then ReadyPending else ReadyFulfilled) \<and>
     closedPromiseState wr =
       (case w_state s of
          Errored \<Rightarrow> ClosedRejected
        | Closed \<Rightarrow> ClosedResolved
        | Erroring \<Rightarrow> ClosedPending
        | Writable \<Rightarrow> ClosedPending))"
  using assms
  by (cases "w_state s")
     (auto simp add: WritableStreamDefaultWriter_constructor_def writer_helper_defs promise_defs
        Let_def nth_append split: if_splits)

theorem C10_writer_constructor_witness:
  "\<not> IsWritableStreamLocked erroredExample \<and>
   snd (WritableStreamDefaultWriter_constructor erroredExample) = Normal () \<and>
   (\<exists>wr. w_writer (fst (WritableStreamDefaultWriter_constructor erroredExample)) = Some wr \<and>
     lookupPromise (w_heap (fst (WritableStreamDefaultWriter_constructor erroredExample))) (readyPromise wr)
       = Some (Rejected (Opaque 1)) \<and>
     lookupPromise (w_heap (fst (WritableStreamDefaultWriter_constructor erroredExample))) (closedPromise wr)
       = Some (Rejected (Opaque 1)))"
proof -
  have u: "\<not> IsWritableStreamLocked erroredExample"
    by (simp add: erroredExample_def w_defs promise_defs writer_helper_defs Let_def)
  have e: "w_storedError erroredExample = Opaque 1"
    by (simp add: erroredExample_def w_defs promise_defs writer_helper_defs Let_def)
  show ?thesis
    using C10_writer_constructor [OF u, of "fst (WritableStreamDefaultWriter_constructor erroredExample)"
        "snd (WritableStreamDefaultWriter_constructor erroredExample)"] u
    by (auto simp add: erroredExample_state e)
qed

end
